theory Spec2Isabelle
  imports Main "HOL-Library.Signed_Division" "HOL-Library.Sublist"
begin

section \<open>The game logic of CentipedeCPP\<close>

text \<open>
  A shallow embedding of \<^verbatim>\<open>GameLogic.hpp\<close>. The class \<^verbatim>\<open>GameLogic\<close> holds a shared
  pointer to one \<^verbatim>\<open>SaveState\<close>; every vector the methods receive (\<^verbatim>\<open>centipedes_ptr\<close>,
  \<^verbatim>\<open>bullets_ptr\<close>, ...) is the one owned by that save state, so the model passes the
  save state itself and reads the vectors from it.

  The C++ type \<^verbatim>\<open>int\<close> has 32 bits. In the arithmetic of \<^verbatim>\<open>GameLogic.hpp\<close>, \<^verbatim>\<open>/\<close> and
  \<^verbatim>\<open>%\<close> truncate towards zero (\<open>sdiv\<close>, \<open>smod\<close>) and trap on a zero divisor and on
  \<open>INT_MIN\<close> by \<open>-1\<close> (a fault here); \<^verbatim>\<open>+\<close>, \<^verbatim>\<open>-\<close> and \<^verbatim>\<open>*\<close> give the result of
  two's complement, written out as \<open>wrapInt\<close>.
\<close>

subsection \<open>Data\<close>

datatype ScoreType = centipedeHit | mushroomKill | roundEnd

datatype error =
    LogicError string \<comment> \<open>\<^verbatim>\<open>std::logic_error\<close>\<close>
  | DivisionByZero \<comment> \<open>\<^verbatim>\<open>/\<close> or \<^verbatim>\<open>%\<close> with a zero divisor\<close>
  | SignedOverflow \<comment> \<open>\<^verbatim>\<open>/\<close> or \<^verbatim>\<open>%\<close> of \<open>INT_MIN\<close> by \<open>-1\<close>\<close>
  | InvalidatedIterator \<comment> \<open>an iterator of a vector is read after the vector was cleared\<close>

text \<open>
  The classes below are declared in headers that \<^verbatim>\<open>GameLogic.hpp\<close> includes. Their
  fields are the ones the getters called in \<^verbatim>\<open>GameLogic.hpp\<close> read.
\<close>

type_synonym Position = "int \<times> int" \<comment> \<open>line, column\<close>

datatype Direction = up | down | left | right | none

datatype CentipedeMovingDirection = cLeft | cRight

datatype CentipedeHit = noHit | tailHit | headHit

record CentipedeSettings =
  gameTickLength :: int
  liveLostBreakTime :: int
  starshipModuloGametickSlowdown :: int
  initialCentipedeModuloGametickSlowdown :: int
  centipedeSpeedIncrementRoundModuloSlowdown :: int
  centipedeSpeedIncrementAmount :: int
  initialCentipedeSize :: int
  centipedeSizeIncrementRoundModuloSlowdown :: int
  centipedeSizeIncrementAmount :: int
  centipedeSpawnLine :: int
  centipedeSpawnColumn :: int
  pointsForCentipedeHit :: int
  pointsForMushroomKill :: int
  pointsForRoundEnd :: int
  initialStarshipLine :: int
  initialStarshipColumn :: int
  initialPlayerHealth :: int

record Bullet =
  bulletPosition :: Position

record Starship =
  starshipPosition :: Position

type_synonym MushroomMap = "(Position \<times> int) list" \<comment> \<open>cell, durability\<close>

text \<open>
  Modelled from the spec: the class \<^verbatim>\<open>CentipedeHead\<close> with its tail, as the ordered
  sequence of the positions of its segments, from the head (index 0) to the end of the tail,
  and the moving direction they share.
\<close>

record CentipedeHead =
  segments :: "Position list"
  movingDirection :: CentipedeMovingDirection

record SaveState =
  settings :: CentipedeSettings
  bullets :: "Bullet list"
  starship :: Starship
  mushroomMap :: MushroomMap
  centipedes :: "CentipedeHead list"
  currentCentipedeModuloGametickSlowdown :: int
  currentRound :: int
  score :: int
  lives :: int
  gameTick :: int

datatype Signal = Signal

text \<open>The thread that runs \<^verbatim>\<open>executeGameClock(gameTickLength, gameClock)\<close>.\<close>

datatype GameClockThread = ExecuteGameClock int Signal

text \<open>
  What one tick, or the end of a round, does that can be seen from outside the save state:
  the low level methods called and the calls to the UI, the menu and the sleep function, in
  the order they happen. The field \<open>calls\<close> of the game logic records them; nothing reads it.
\<close>

datatype Call =
    SpawnBulletIfNecessary | MoveBullets | CollideBulletsMushrooms | MoveStarshipIfNecessary
  | MoveCentipedes | CollideBulletsCentipedes | CollidePlayerCentipedes
  | DisplayImage | RunBreakoutMenu | SleepFor int | DisplayMenu

text \<open>
  The members of \<^verbatim>\<open>GameLogic\<close> other than the pointers to its collaborators and to the
  save state (the save state is passed beside it).
\<close>

record GameLogic =
  gameClock_thread_ptr :: "GameClockThread option" \<comment> \<open>\<open>None\<close> is \<^verbatim>\<open>nullptr\<close>\<close>
  hasDiedInRound :: bool
  calls :: "Call list"

subsection \<open>The game clock\<close>

definition startGameClock :: "int \<Rightarrow> GameLogic \<Rightarrow> (error + Signal) \<times> GameLogic" where
  "startGameClock tickLength g =
     (if gameClock_thread_ptr g \<noteq> None
      then (Inl (LogicError ''Game Clock already running.''), g)
      else let gameClock = Signal
           in (Inr gameClock,
               g\<lparr>gameClock_thread_ptr := Some (ExecuteGameClock tickLength gameClock)\<rparr>))"

definition waitForGameClock :: "GameLogic \<Rightarrow> GameLogic" where
  "waitForGameClock g = g\<lparr>gameClock_thread_ptr := None\<rparr>"

definition alive :: "SaveState \<Rightarrow> bool" where
  "alive s = (if lives s > 0 then True else False)"

subsection \<open>Paths and rounds\<close>

text \<open>The values of a 32 bit \<^verbatim>\<open>int\<close>, and its arithmetic.\<close>

definition isInt :: "int \<Rightarrow> bool" where
  "isInt x = (- 2147483648 \<le> x \<and> x \<le> 2147483647)"

definition wrapInt :: "int \<Rightarrow> int" where
  "wrapInt x = (x + 2147483648) mod 4294967296 - 2147483648"

definition intDiv :: "int \<Rightarrow> int \<Rightarrow> error + int" where
  "intDiv a b =
     (if b = 0 then Inl DivisionByZero
      else if a = - 2147483648 \<and> b = - 1 then Inl SignedOverflow
      else Inr (a sdiv b))"

definition intRem :: "int \<Rightarrow> int \<Rightarrow> error + int" where
  "intRem a b =
     (if b = 0 then Inl DivisionByZero
      else if a = - 2147483648 \<and> b = - 1 then Inl SignedOverflow
      else Inr (a smod b))"

definition executePathForGametick :: "int \<Rightarrow> int \<Rightarrow> error + bool" where
  "executePathForGametick tick moduloSlowdown =
     (case intRem tick moduloSlowdown of
        Inl e \<Rightarrow> Inl e
      | Inr remainder \<Rightarrow> Inr (remainder = 0))"

definition calculateCentipedeSlowdown :: "CentipedeSettings \<Rightarrow> int \<Rightarrow> error + int" where
  "calculateCentipedeSlowdown st round =
     (let initialSlowdown = initialCentipedeModuloGametickSlowdown st
      in case intDiv round (centipedeSpeedIncrementRoundModuloSlowdown st) of
           Inl e \<Rightarrow> Inl e
         | Inr numberOfSpeedups \<Rightarrow>
             let currentSlowdown =
                   wrapInt (initialSlowdown
                            - wrapInt (numberOfSpeedups * centipedeSpeedIncrementAmount st))
             in Inr currentSlowdown)"

definition calculateCentipedeSize :: "CentipedeSettings \<Rightarrow> int \<Rightarrow> error + int" where
  "calculateCentipedeSize st round =
     (let initialSize = initialCentipedeSize st
      in case intDiv round (centipedeSizeIncrementRoundModuloSlowdown st) of
           Inl e \<Rightarrow> Inl e
         | Inr numberOfSizeIncrements \<Rightarrow>
             let currentSize =
                   wrapInt (initialSize
                            + wrapInt (numberOfSizeIncrements * centipedeSizeIncrementAmount st))
             in Inr currentSize)"

subsection \<open>Code outside \<^verbatim>\<open>GameLogic.hpp\<close>\<close>

text \<open>
  The methods of the game objects are defined in other headers. The game logic takes them
  as parameters: each field is one method, from the object and the arguments to the
  result and the object as the method leaves it.
\<close>

record Collaborators =
  bulletMove :: "Bullet \<Rightarrow> bool \<times> Bullet" \<comment> \<open>\<^verbatim>\<open>Bullet::move\<close>\<close>
  shoot :: "Starship \<Rightarrow> Bullet" \<comment> \<open>\<^verbatim>\<open>Starship::shoot\<close>\<close>
  starshipMove :: "Starship \<Rightarrow> Direction \<Rightarrow> MushroomMap \<Rightarrow> Starship" \<comment> \<open>\<^verbatim>\<open>Starship::move\<close>\<close>
  mushroomCollide :: "MushroomMap \<Rightarrow> Bullet \<Rightarrow> bool \<times> MushroomMap" \<comment> \<open>\<^verbatim>\<open>MushroomMap::collide\<close>\<close>
  getMushroom :: "MushroomMap \<Rightarrow> int \<Rightarrow> int \<Rightarrow> int" \<comment> \<open>\<^verbatim>\<open>MushroomMap::getMushroom\<close>\<close>
  newMushroomMap :: "CentipedeSettings \<Rightarrow> MushroomMap" \<comment> \<open>the constructor\<close>
  centipedeMove ::
    "CentipedeHead \<Rightarrow> MushroomMap \<Rightarrow> CentipedeHead list \<Rightarrow> CentipedeSettings \<Rightarrow> CentipedeHead"
    \<comment> \<open>\<^verbatim>\<open>CentipedeHead::move\<close>\<close>
  centipedeCollide ::
    "CentipedeHead \<Rightarrow> Bullet \<Rightarrow> MushroomMap
       \<Rightarrow> (CentipedeHit \<times> CentipedeHead option) \<times> CentipedeHead \<times> MushroomMap"
    \<comment> \<open>\<^verbatim>\<open>CentipedeHead::collide\<close>: the tuple returned, the centipede and the map afterwards\<close>
  isAtPosition :: "CentipedeHead \<Rightarrow> Position \<Rightarrow> bool" \<comment> \<open>\<^verbatim>\<open>CentipedeHead::isAtPosition\<close>\<close>
  newCentipedeHead ::
    "int \<Rightarrow> int \<Rightarrow> CentipedeMovingDirection \<Rightarrow> CentipedeSettings \<Rightarrow> int \<Rightarrow> CentipedeHead"
    \<comment> \<open>the constructor from line, column, direction, settings and size\<close>

type_synonym collideFn =
  "CentipedeHead \<Rightarrow> Bullet \<Rightarrow> MushroomMap
     \<Rightarrow> (CentipedeHit \<times> CentipedeHead option) \<times> CentipedeHead \<times> MushroomMap"

text \<open>
  In the second component of the tuple that \<^verbatim>\<open>collide\<close> returns, \<open>None\<close> is \<^verbatim>\<open>nullptr\<close>
  and \<open>Some t\<close> is the tail split off, as the centipede that the constructor
  \<^verbatim>\<open>CentipedeHead(splitOfBody_ptr)\<close> makes of it.
\<close>

text \<open>Modelled from the spec: \<^verbatim>\<open>SaveState::addToScore\<close>, which adds the points to the score.\<close>

definition addToScore :: "int \<Rightarrow> SaveState \<Rightarrow> SaveState" where
  "addToScore points s = s\<lparr>score := score s + points\<rparr>"

text \<open>Modelled from the spec: \<^verbatim>\<open>SaveState::loseLive\<close>, which decrements the lives by one.\<close>

definition SaveState_loseLive :: "SaveState \<Rightarrow> SaveState" where
  "SaveState_loseLive s = s\<lparr>lives := lives s - 1\<rparr>"

text \<open>Modelled from the spec: \<^verbatim>\<open>SaveState::incrementGameTick\<close>, which increments the tick counter.\<close>

definition incrementGameTick :: "SaveState \<Rightarrow> SaveState" where
  "incrementGameTick s = s\<lparr>gameTick := gameTick s + 1\<rparr>"

text \<open>Modelled from the spec: \<^verbatim>\<open>SaveState::incrementCurrentRound\<close>, which increments the round counter.\<close>

definition incrementCurrentRound :: "SaveState \<Rightarrow> SaveState" where
  "incrementCurrentRound s = s\<lparr>currentRound := currentRound s + 1\<rparr>"

text \<open>
  Modelled from the spec: \<^verbatim>\<open>CentipedeHead::collide\<close>. The bullet is tested against the
  segments from the head to the tail. A hit on the head is a head hit. A hit on a later
  segment is a tail hit: the struck segment and all segments behind it leave the centipede,
  and the segments behind the struck one, when there are any, are returned as the tail split
  off. The spec names no effect on the mushroom map.
\<close>

definition firstSegmentAt :: "Position \<Rightarrow> Position list \<Rightarrow> nat option" where
  "firstSegmentAt p segs = (if p \<in> set segs then Some (length (takeWhile (\<lambda>q. q \<noteq> p) segs)) else None)"

definition collide :: collideFn where
  "collide c b m =
     (case firstSegmentAt (bulletPosition b) (segments c) of
        None \<Rightarrow> ((noHit, None), c, m)
      | Some d \<Rightarrow>
          if d = 0 then ((headHit, None), c, m)
          else ((tailHit,
                 if d < length (segments c) - 1
                 then Some (c\<lparr>segments := drop (d + 1) (segments c)\<rparr>) else None),
                c\<lparr>segments := take d (segments c)\<rparr>, m))"

text \<open>
  Modelled from the spec: \<^verbatim>\<open>CentipedeHead::isAtPosition\<close>, which holds when the head of
  the centipede occupies the cell.
\<close>

definition headAtPosition :: "CentipedeHead \<Rightarrow> Position \<Rightarrow> bool" where
  "headAtPosition c p = (case segments c of [] \<Rightarrow> False | h # _ \<Rightarrow> h = p)"

subsection \<open>Low level methods\<close>

definition increaseScore :: "ScoreType \<Rightarrow> SaveState \<Rightarrow> SaveState" where
  "increaseScore type s =
     (case type of
        centipedeHit \<Rightarrow> addToScore (pointsForCentipedeHit (settings s)) s
      | mushroomKill \<Rightarrow> addToScore (pointsForMushroomKill (settings s)) s
      | roundEnd \<Rightarrow> addToScore (pointsForRoundEnd (settings s)) s)"

definition spawnBulletIfNecessary :: "Collaborators \<Rightarrow> bool \<Rightarrow> SaveState \<Rightarrow> SaveState" where
  "spawnBulletIfNecessary env shot s =
     (if shot then s\<lparr>bullets := bullets s @ [shoot env (starship s)]\<rparr> else s)"

text \<open>The loop of \<^verbatim>\<open>moveBullets\<close> over the bullets from the iterator to the end.\<close>

fun moveBulletsFrom :: "Collaborators \<Rightarrow> Bullet list \<Rightarrow> Bullet list" where
  "moveBulletsFrom env [] = []"
| "moveBulletsFrom env (b # bs) =
     (case bulletMove env b of
        (hasMoved, b') \<Rightarrow>
          if \<not> hasMoved then moveBulletsFrom env bs else b' # moveBulletsFrom env bs)"

definition moveBullets :: "Collaborators \<Rightarrow> SaveState \<Rightarrow> SaveState" where
  "moveBullets env s = s\<lparr>bullets := moveBulletsFrom env (bullets s)\<rparr>"

text \<open>
  The loop of \<^verbatim>\<open>collideBulletsMushrooms\<close> over the bullets from the iterator to the end:
  the bullets that stay, and the save state with the map and the score as the loop leaves
  them.
\<close>

fun collideBulletsMushroomsFrom ::
  "Collaborators \<Rightarrow> Bullet list \<Rightarrow> SaveState \<Rightarrow> Bullet list \<times> SaveState" where
  "collideBulletsMushroomsFrom env [] s = ([], s)"
| "collideBulletsMushroomsFrom env (b # bs) s =
     (case mushroomCollide env (mushroomMap s) b of
        (hit, m') \<Rightarrow>
          let s1 = s\<lparr>mushroomMap := m'\<rparr>
          in if hit
             then let s2 = (if getMushroom env m' (fst (bulletPosition b)) (snd (bulletPosition b)) = 0
                            then increaseScore mushroomKill s1 else s1)
                  in collideBulletsMushroomsFrom env bs s2
             else (case collideBulletsMushroomsFrom env bs s1 of
                     (kept, s') \<Rightarrow> (b # kept, s')))"

definition collideBulletsMushrooms :: "Collaborators \<Rightarrow> SaveState \<Rightarrow> SaveState" where
  "collideBulletsMushrooms env s =
     (case collideBulletsMushroomsFrom env (bullets s) s of
        (kept, s') \<Rightarrow> s'\<lparr>bullets := kept\<rparr>)"

definition moveStarshipIfNecessary :: "Collaborators \<Rightarrow> Direction \<Rightarrow> SaveState \<Rightarrow> SaveState" where
  "moveStarshipIfNecessary env direction s =
     (if direction = none then s
      else s\<lparr>starship := starshipMove env (starship s) direction (mushroomMap s)\<rparr>)"

text \<open>Each centipede moves in turn and sees the vector as the moves before it left it.\<close>

definition moveCentipedes :: "Collaborators \<Rightarrow> SaveState \<Rightarrow> SaveState" where
  "moveCentipedes env s =
     s\<lparr>centipedes :=
         fold (\<lambda>i cs. cs[i := centipedeMove env (cs ! i) (mushroomMap s) cs (settings s)])
           [0 ..< length (centipedes s)] (centipedes s)\<rparr>"

subsection \<open>Bullets against centipedes\<close>

definition eraseAt :: "nat \<Rightarrow> 'a list \<Rightarrow> 'a list" where
  "eraseAt i xs = take i xs @ drop (Suc i) xs"

text \<open>
  The inner loop of \<^verbatim>\<open>collideBulletsCentipedes\<close>: \<open>i\<close> is the offset of \<^verbatim>\<open>centipede_ptr\<close>
  and \<open>j\<close> the offset of \<^verbatim>\<open>bullet_ptr\<close> in their vectors. The result is the value of the
  flag \<^verbatim>\<open>headHit\<close> when the loop ends, and the save state.
\<close>

function bulletScan :: "collideFn \<Rightarrow> nat \<Rightarrow> nat \<Rightarrow> SaveState \<Rightarrow> bool \<times> SaveState" where
  "bulletScan coll i j s =
     (if j < length (bullets s) then
        (case coll (centipedes s ! i) (bullets s ! j) (mushroomMap s) of
           ((hitIndicator, splitOfTail), c', m') \<Rightarrow>
             let s1 = s\<lparr>centipedes := (centipedes s)[i := c'], mushroomMap := m'\<rparr>
             in if hitIndicator = noHit then bulletScan coll i (j + 1) s1
                else
                  let s2 = s1\<lparr>bullets := eraseAt j (bullets s1)\<rparr>;
                      s3 = increaseScore centipedeHit s2;
                      s4 = (case splitOfTail of
                              None \<Rightarrow> s3
                            | Some newCentipede \<Rightarrow> s3\<lparr>centipedes := centipedes s3 @ [newCentipede]\<rparr>)
                  in if hitIndicator = tailHit then bulletScan coll i j s4
                     else (True, s4))
      else (False, s))"
  by pat_completeness auto
termination
  by (relation "measure (\<lambda>(coll, i, j, s). length (bullets s) - j)")
     (auto simp: eraseAt_def increaseScore_def addToScore_def split: option.splits)

declare bulletScan.simps [simp del]

text \<open>
  The save state after a bullet at offset \<open>j\<close> has hit the centipede at offset \<open>i\<close>
  (lines 480 to 494): the bullet is erased, the score is raised and the tail split off,
  if there is one, is pushed to the back of the centipedes.
\<close>

definition struck ::
  "nat \<Rightarrow> nat \<Rightarrow> CentipedeHead \<Rightarrow> MushroomMap \<Rightarrow> CentipedeHead option \<Rightarrow> SaveState \<Rightarrow> SaveState" where
  "struck i j c' m' splitOfTail s =
     (let s1 = s\<lparr>centipedes := (centipedes s)[i := c'], mushroomMap := m'\<rparr>;
          s2 = s1\<lparr>bullets := eraseAt j (bullets s1)\<rparr>;
          s3 = increaseScore centipedeHit s2
      in case splitOfTail of
           None \<Rightarrow> s3
         | Some newCentipede \<Rightarrow> s3\<lparr>centipedes := centipedes s3 @ [newCentipede]\<rparr>)"

lemma length_eraseAt: "i < length xs \<Longrightarrow> length (eraseAt i xs) = length xs - 1"
  by (simp add: eraseAt_def)

lemma struck_fields:
  "centipedes (struck i j c' m' sp s) =
     (centipedes s)[i := c'] @ (case sp of None \<Rightarrow> [] | Some t \<Rightarrow> [t])"
  "bullets (struck i j c' m' sp s) = eraseAt j (bullets s)"
  "score (struck i j c' m' sp s) = score s + pointsForCentipedeHit (settings s)"
  "mushroomMap (struck i j c' m' sp s) = m'"
  "settings (struck i j c' m' sp s) = settings s"
  "lives (struck i j c' m' sp s) = lives s"
  "starship (struck i j c' m' sp s) = starship s"
  "gameTick (struck i j c' m' sp s) = gameTick s"
  "currentRound (struck i j c' m' sp s) = currentRound s"
  "currentCentipedeModuloGametickSlowdown (struck i j c' m' sp s) =
     currentCentipedeModuloGametickSlowdown s"
  by (simp_all add: struck_def Let_def increaseScore_def addToScore_def split: option.split)

lemma bulletScan_end:
  "\<not> j < length (bullets s) \<Longrightarrow> bulletScan coll i j s = (False, s)"
  by (simp add: bulletScan.simps [of coll i j s])

lemma bulletScan_noHit:
  "j < length (bullets s) \<Longrightarrow>
   coll (centipedes s ! i) (bullets s ! j) (mushroomMap s) = ((noHit, sp), c', m') \<Longrightarrow>
   bulletScan coll i j s =
     bulletScan coll i (j + 1) (s\<lparr>centipedes := (centipedes s)[i := c'], mushroomMap := m'\<rparr>)"
  by (simp add: bulletScan.simps [of coll i j s])

lemma bulletScan_tailHit:
  "j < length (bullets s) \<Longrightarrow>
   coll (centipedes s ! i) (bullets s ! j) (mushroomMap s) = ((tailHit, sp), c', m') \<Longrightarrow>
   bulletScan coll i j s = bulletScan coll i j (struck i j c' m' sp s)"
  by (cases sp) (simp_all add: bulletScan.simps [of coll i j s] struck_def Let_def)

lemma bulletScan_headHit:
  "j < length (bullets s) \<Longrightarrow>
   coll (centipedes s ! i) (bullets s ! j) (mushroomMap s) = ((headHit, sp), c', m') \<Longrightarrow>
   bulletScan coll i j s = (True, struck i j c' m' sp s)"
  by (cases sp) (simp_all add: bulletScan.simps [of coll i j s] struck_def Let_def)

text \<open>
  A scan of the bullets never shortens the vector of centipedes, and it pushes at most one
  centipede for each bullet it erases.
\<close>

lemma bulletScan_lengths:
  "bulletScan coll i j s = (h, s') \<Longrightarrow>
     length (centipedes s) \<le> length (centipedes s') \<and>
     length (centipedes s') + length (bullets s') \<le> length (centipedes s) + length (bullets s)"
proof (induction "length (bullets s) - j" arbitrary: j s rule: less_induct)
  case less
  show ?case
  proof (cases "j < length (bullets s)")
    case False
    with less.prems show ?thesis by (simp add: bulletScan_end)
  next
    case True
    obtain hit sp c' m' where
      r: "coll (centipedes s ! i) (bullets s ! j) (mushroomMap s) = ((hit, sp), c', m')"
      by (metis prod.exhaust)
    show ?thesis
    proof (cases hit)
      case noHit
      let ?s1 = "s\<lparr>centipedes := (centipedes s)[i := c'], mushroomMap := m'\<rparr>"
      have "bulletScan coll i (j + 1) ?s1 = (h, s')"
        using less.prems True r noHit by (simp add: bulletScan_noHit)
      moreover have "length (bullets ?s1) - (j + 1) < length (bullets s) - j"
        using True by simp
      ultimately show ?thesis
        using less.hyps [of ?s1 "j + 1"] by simp
    next
      case tailHit
      have "bulletScan coll i j (struck i j c' m' sp s) = (h, s')"
        using less.prems True r tailHit by (simp add: bulletScan_tailHit)
      moreover have "length (bullets (struck i j c' m' sp s)) - j < length (bullets s) - j"
        using True by (simp add: struck_fields length_eraseAt)
      ultimately show ?thesis
        using less.hyps [of "struck i j c' m' sp s" j] True
        by (cases sp) (auto simp: struck_fields length_eraseAt)
    next
      case headHit
      have "s' = struck i j c' m' sp s"
        using less.prems True r headHit by (simp add: bulletScan_headHit)
      then show ?thesis
        using True by (cases sp) (simp_all add: struck_fields length_eraseAt)
    qed
  qed
qed

text \<open>
  One turn of the outer loop of \<^verbatim>\<open>collideBulletsCentipedes\<close> (lines 463 to 516), on the
  offset \<open>i\<close> of \<^verbatim>\<open>centipede_ptr\<close> and the save state: the inner loop from the first
  bullet, then the centipede is erased or the iterator moves on.
\<close>

definition centipedeTurn :: "collideFn \<Rightarrow> nat \<times> SaveState \<Rightarrow> nat \<times> SaveState" where
  "centipedeTurn coll =
     (\<lambda>(i, s). case bulletScan coll i 0 s of
        (headWasHit, s') \<Rightarrow>
          if headWasHit then (i, s'\<lparr>centipedes := eraseAt i (centipedes s')\<rparr>)
          else (i + 1, s'))"

lemma centipedeTurn_measure:
  assumes "i < length (centipedes s)" and "centipedeTurn coll (i, s) = (i', s')"
  shows "length (centipedes s') + length (bullets s') - i'
           < length (centipedes s) + length (bullets s) - i"
proof -
  obtain h sb where r: "bulletScan coll i 0 s = (h, sb)" by (metis prod.exhaust)
  from bulletScan_lengths [OF r] assms r show ?thesis
    by (cases h) (auto simp: centipedeTurn_def length_eraseAt)
qed

text \<open>The outer loop: the end of the vector is read anew at every turn.\<close>

function centipedeScan :: "collideFn \<Rightarrow> nat \<Rightarrow> SaveState \<Rightarrow> SaveState" where
  "centipedeScan coll i s =
     (if i < length (centipedes s) then
        (case centipedeTurn coll (i, s) of (i', s') \<Rightarrow> centipedeScan coll i' s')
      else s)"
  by pat_completeness auto
termination
proof (relation "measure (\<lambda>(coll, i, s). length (centipedes s) + length (bullets s) - i)",
    goal_cases)
  case 1
  show ?case by simp
next
  case (2 coll i s x y)
  then have "centipedeTurn coll (i, s) = (x, y)" by simp
  from centipedeTurn_measure [OF 2(1) this] show ?case by simp
qed

declare centipedeScan.simps [simp del]

definition collideBulletsCentipedes :: "Collaborators \<Rightarrow> SaveState \<Rightarrow> SaveState" where
  "collideBulletsCentipedes env s = centipedeScan (centipedeCollide env) 0 s"

subsection \<open>Centipedes against the starship\<close>

definition loseLive :: "GameLogic \<Rightarrow> SaveState \<Rightarrow> GameLogic \<times> SaveState" where
  "loseLive g s = (g\<lparr>hasDiedInRound := True\<rparr>, (SaveState_loseLive s)\<lparr>centipedes := []\<rparr>)"

text \<open>
  The range-based \<^verbatim>\<open>for\<close> of \<^verbatim>\<open>collidePlayerCentipedes\<close> takes the begin and the end of
  the vector once, before the first turn: \<open>k\<close> is the offset of the running iterator and
  \<open>n\<close> the offset of that end. The vector is the one of the save state
  (\<^verbatim>\<open>handleGlobalCollisions\<close> passes \<^verbatim>\<open>saveState_ptr->getCentipedes()\<close>), which is the
  vector that \<^verbatim>\<open>loseLive\<close> clears; the loop goes on to the end it took. \<^verbatim>\<open>clear()\<close>
  destroys the elements and invalidates the iterators, and C++ gives a read through them no
  behaviour: a turn that reads its iterator when the vector no longer holds an element
  there ends the loop with the fault \<open>InvalidatedIterator\<close>.
\<close>

function playerScan ::
  "(CentipedeHead \<Rightarrow> Position \<Rightarrow> bool) \<Rightarrow> Position \<Rightarrow> nat \<Rightarrow> nat \<Rightarrow> GameLogic \<Rightarrow> SaveState
     \<Rightarrow> error + GameLogic \<times> SaveState" where
  "playerScan isAt starshipPos k n g s =
     (if k < n then
        if k < length (centipedes s) then
          let centipede = centipedes s ! k
          in if \<not> isAt centipede starshipPos then playerScan isAt starshipPos (k + 1) n g s
             else (case loseLive g s of
                     (g', s') \<Rightarrow> playerScan isAt starshipPos (k + 1) n g' s')
        else Inl InvalidatedIterator
      else Inr (g, s))"
  by pat_completeness auto
termination
  by (relation "measure (\<lambda>(isAt, starshipPos, k, n, g, s). n - k)") auto

declare playerScan.simps [simp del]

definition collidePlayerCentipedes ::
  "Collaborators \<Rightarrow> GameLogic \<Rightarrow> SaveState \<Rightarrow> error + GameLogic \<times> SaveState" where
  "collidePlayerCentipedes env g s =
     (let starshipPos = starshipPosition (starship s)
      in playerScan (isAtPosition env) starshipPos 0 (length (centipedes s)) g s)"

subsection \<open>High level methods\<close>

text \<open>
  What the reads of the input buffer and the breakout menu give in one tick: the shot flag,
  the direction, the breakout flag, and whether the menu, if it runs, says to resume.
\<close>

record TickInput =
  shot :: bool
  direction :: Direction
  breakoutMenu :: bool
  resume :: bool

definition called :: "Call list \<Rightarrow> GameLogic \<Rightarrow> GameLogic" where
  "called cs g = g\<lparr>calls := calls g @ cs\<rparr>"

definition handlePlayerControlledEntities ::
  "Collaborators \<Rightarrow> TickInput \<Rightarrow> GameLogic \<Rightarrow> SaveState \<Rightarrow> error + GameLogic \<times> SaveState" where
  "handlePlayerControlledEntities env inp g s =
     (case executePathForGametick (gameTick s) (starshipModuloGametickSlowdown (settings s)) of
        Inl e \<Rightarrow> Inl e
      | Inr due \<Rightarrow>
          if \<not> due then Inr (g, s)
          else
            let s1 = spawnBulletIfNecessary env (shot inp) s;
                s2 = moveBullets env s1;
                s3 = collideBulletsMushrooms env s2;
                s4 = moveStarshipIfNecessary env (direction inp) s3
            in Inr (called [SpawnBulletIfNecessary, MoveBullets, CollideBulletsMushrooms,
                            MoveStarshipIfNecessary] g, s4))"

definition handleCentipedes ::
  "Collaborators \<Rightarrow> GameLogic \<Rightarrow> SaveState \<Rightarrow> error + GameLogic \<times> SaveState" where
  "handleCentipedes env g s =
     (case executePathForGametick (gameTick s) (currentCentipedeModuloGametickSlowdown s) of
        Inl e \<Rightarrow> Inl e
      | Inr due \<Rightarrow>
          if \<not> due then Inr (g, s)
          else Inr (called [MoveCentipedes] g, moveCentipedes env s))"

text \<open>
  The second call of \<^verbatim>\<open>executePathForGametick\<close> stands behind \<^verbatim>\<open>&&\<close>: it is evaluated
  only when the player path is not due.
\<close>

definition collisionsDue :: "SaveState \<Rightarrow> error + bool" where
  "collisionsDue s =
     (case executePathForGametick (gameTick s) (starshipModuloGametickSlowdown (settings s)) of
        Inl e \<Rightarrow> Inl e
      | Inr playerDue \<Rightarrow>
          if playerDue then Inr True
          else executePathForGametick (gameTick s) (currentCentipedeModuloGametickSlowdown s))"

definition handleGlobalCollisions ::
  "Collaborators \<Rightarrow> GameLogic \<Rightarrow> SaveState \<Rightarrow> error + GameLogic \<times> SaveState" where
  "handleGlobalCollisions env g s =
     (case collisionsDue s of
        Inl e \<Rightarrow> Inl e
      | Inr due \<Rightarrow>
          if \<not> due then Inr (g, s)
          else
            let s1 = collideBulletsCentipedes env s
            in collidePlayerCentipedes env
                 (called [CollideBulletsCentipedes, CollidePlayerCentipedes] g) s1)"

definition continueRound :: "CentipedeHead list \<Rightarrow> bool" where
  "continueRound cs = (length cs > 0)"

definition getRandomCentipedeMovingDirection :: "bool \<Rightarrow> CentipedeMovingDirection" where
  "getRandomCentipedeMovingDirection goLeft = (if goLeft then cLeft else cRight)"

text \<open>\<open>goLeft\<close> is what \<^verbatim>\<open>rollRandomWithChance(1,2)\<close> returns in this round.\<close>

definition startNextRound :: "Collaborators \<Rightarrow> bool \<Rightarrow> SaveState \<Rightarrow> error + SaveState" where
  "startNextRound env goLeft s =
     (let s1 = incrementCurrentRound s;
          round = currentRound s1
      in case calculateCentipedeSlowdown (settings s1) round of
           Inl e \<Rightarrow> Inl e
         | Inr currentSlowdown \<Rightarrow>
             let s2 = s1\<lparr>currentCentipedeModuloGametickSlowdown := currentSlowdown\<rparr>
             in case calculateCentipedeSize (settings s2) round of
                  Inl e \<Rightarrow> Inl e
                | Inr currentSize \<Rightarrow>
                    let movingDirection = getRandomCentipedeMovingDirection goLeft;
                        line = centipedeSpawnLine (settings s2);
                        column = centipedeSpawnColumn (settings s2);
                        newCentipede =
                          newCentipedeHead env line column movingDirection (settings s2) currentSize
                    in Inr (s2\<lparr>centipedes := centipedes s2 @ [newCentipede]\<rparr>))"

definition printGame :: "GameLogic \<Rightarrow> GameLogic" where
  "printGame g = called [DisplayImage] g"

text \<open>The loop \<^verbatim>\<open>while(this->alive()) this->loseLive();\<close> of \<^verbatim>\<open>breakGameIfNecessary\<close>.\<close>

function loseAllLives :: "GameLogic \<Rightarrow> SaveState \<Rightarrow> GameLogic \<times> SaveState" where
  "loseAllLives g s =
     (if alive s then (case loseLive g s of (g', s') \<Rightarrow> loseAllLives g' s') else (g, s))"
  by pat_completeness auto
termination
  by (relation "measure (\<lambda>(g, s). nat (lives s))")
     (auto simp: alive_def loseLive_def SaveState_loseLive_def split: if_splits)

declare loseAllLives.simps [simp del]

definition breakGameIfNecessary :: "TickInput \<Rightarrow> GameLogic \<Rightarrow> SaveState \<Rightarrow> GameLogic \<times> SaveState" where
  "breakGameIfNecessary inp g s =
     (if \<not> breakoutMenu inp then (g, s)
      else let g1 = called [RunBreakoutMenu] g
           in if resume inp then (g1, s) else loseAllLives g1 s)"

subsection \<open>The game loop\<close>

text \<open>One turn of the inner loop of \<^verbatim>\<open>gameLoop\<close>, from one signal of the clock.\<close>

definition gameLoopTick ::
  "Collaborators \<Rightarrow> TickInput \<Rightarrow> GameLogic \<Rightarrow> SaveState \<Rightarrow> error + GameLogic \<times> SaveState" where
  "gameLoopTick env inp g s =
     (let s0 = incrementGameTick s
      in case handlePlayerControlledEntities env inp g s0 of
           Inl e \<Rightarrow> Inl e
         | Inr (g1, s1) \<Rightarrow>
             (case handleCentipedes env g1 s1 of
                Inl e \<Rightarrow> Inl e
              | Inr (g2, s2) \<Rightarrow>
                  (case handleGlobalCollisions env g2 s2 of
                     Inl e \<Rightarrow> Inl e
                   | Inr (g3, s3) \<Rightarrow> Inr (breakGameIfNecessary inp (printGame g3) s3))))"

text \<open>
  The inner loop: one element of the list for each signal of the clock. With the list used
  up and the round not over, the loop waits for a signal and there is no result (\<open>None\<close>).
  The result holds the inputs that are left.
\<close>

fun playRound ::
  "Collaborators \<Rightarrow> TickInput list \<Rightarrow> GameLogic \<Rightarrow> SaveState
     \<Rightarrow> (error + GameLogic \<times> SaveState \<times> TickInput list) option" where
  "playRound env [] g s =
     (if alive s \<and> continueRound (centipedes s) then None else Some (Inr (g, s, [])))"
| "playRound env (inp # inps) g s =
     (if alive s \<and> continueRound (centipedes s)
      then (case gameLoopTick env inp g s of
              Inl e \<Rightarrow> Some (Inl e)
            | Inr (g', s') \<Rightarrow> playRound env inps g' s')
      else Some (Inr (g, s, inp # inps)))"

text \<open>What \<^verbatim>\<open>gameLoop\<close> does between the inner loop and the next turn of the outer loop.\<close>

definition endRound :: "GameLogic \<Rightarrow> SaveState \<Rightarrow> GameLogic \<times> SaveState" where
  "endRound g s =
     (if \<not> hasDiedInRound g then (g, increaseScore roundEnd s)
      else let delayLength = liveLostBreakTime (settings s)
           in (called [SleepFor delayLength] g, s))"

text \<open>
  The outer loop: one element of \<open>rolls\<close> for each round, the value that
  \<^verbatim>\<open>rollRandomWithChance\<close> returns in it.
\<close>

fun playRounds ::
  "Collaborators \<Rightarrow> bool list \<Rightarrow> TickInput list \<Rightarrow> GameLogic \<Rightarrow> SaveState
     \<Rightarrow> (error + GameLogic \<times> SaveState) option" where
  "playRounds env [] inps g s = (if alive s then None else Some (Inr (g, s)))"
| "playRounds env (goLeft # rolls) inps g s =
     (if alive s
      then (case startNextRound env goLeft s of
              Inl e \<Rightarrow> Some (Inl e)
            | Inr s1 \<Rightarrow>
                (case playRound env inps g s1 of
                   None \<Rightarrow> None
                 | Some (Inl e) \<Rightarrow> Some (Inl e)
                 | Some (Inr (g2, s2, inps')) \<Rightarrow>
                     (case endRound g2 s2 of
                        (g3, s3) \<Rightarrow> playRounds env rolls inps' g3 s3)))
      else Some (Inr (g, s)))"

definition loseGame :: "GameLogic \<Rightarrow> GameLogic" where
  "loseGame g = called [DisplayMenu] g"

definition gameLoop ::
  "Collaborators \<Rightarrow> bool list \<Rightarrow> TickInput list \<Rightarrow> GameLogic \<Rightarrow> SaveState
     \<Rightarrow> (error + GameLogic \<times> SaveState) option" where
  "gameLoop env rolls inps g s =
     (case startGameClock (gameTickLength (settings s)) g of
        (Inl e, g0) \<Rightarrow> Some (Inl e)
      | (Inr gameClock, g0) \<Rightarrow>
          (case playRounds env rolls inps g0 s of
             None \<Rightarrow> None
           | Some (Inl e) \<Rightarrow> Some (Inl e)
           | Some (Inr (g1, s1)) \<Rightarrow>
               let g2 = (if lives s1 \<le> 0 then loseGame g1 else g1)
               in Some (Inr (waitForGameClock g2, s1))))"

subsection \<open>Construction and control methods\<close>

text \<open>
  The constructor assigns the pointers to the collaborators and sets
  \<^verbatim>\<open>gameClock_thread_ptr\<close> to \<^verbatim>\<open>nullptr\<close>. It assigns nothing to \<^verbatim>\<open>hasDiedInRound\<close>: the
  member holds whatever the storage of the object held, the parameter \<open>garbage\<close>.
\<close>

definition GameLogic_new :: "bool \<Rightarrow> GameLogic" where
  "GameLogic_new garbage = \<lparr>gameClock_thread_ptr = None, hasDiedInRound = garbage, calls = []\<rparr>"

definition continueGame ::
  "Collaborators \<Rightarrow> bool list \<Rightarrow> TickInput list \<Rightarrow> GameLogic \<Rightarrow> SaveState
     \<Rightarrow> (error + GameLogic \<times> SaveState) option" where
  "continueGame env rolls inps g state = gameLoop env rolls inps g state"

text \<open>
  The save state that \<^verbatim>\<open>startNew\<close> builds; \<open>st\<close> is the default constructed
  \<^verbatim>\<open>CentipedeSettings\<close>. The constructors of \<^verbatim>\<open>Starship\<close> and \<^verbatim>\<open>SaveState\<close> are
  modelled from the spec: the starship stands on the given cell, the save state holds what
  it is given, and its tick counter starts at 0.
\<close>

definition newState :: "Collaborators \<Rightarrow> CentipedeSettings \<Rightarrow> SaveState" where
  "newState env st =
     \<lparr>settings = st,
      bullets = [],
      starship = \<lparr>starshipPosition = (initialStarshipLine st, initialStarshipColumn st)\<rparr>,
      mushroomMap = newMushroomMap env st,
      centipedes = [],
      currentCentipedeModuloGametickSlowdown = initialCentipedeModuloGametickSlowdown st,
      currentRound = 0,
      score = 0,
      lives = initialPlayerHealth st,
      gameTick = 0\<rparr>"

definition startNew ::
  "Collaborators \<Rightarrow> CentipedeSettings \<Rightarrow> bool list \<Rightarrow> TickInput list \<Rightarrow> GameLogic
     \<Rightarrow> (error + GameLogic \<times> SaveState) option" where
  "startNew env st rolls inps g = continueGame env rolls inps g (newState env st)"

subsection \<open>The calls of one tick\<close>

text \<open>
  The calls that one turn of the inner loop of \<^verbatim>\<open>gameLoop\<close> adds to the record, given
  whether the player path and the centipede path are due and whether the breakout menu runs.
\<close>

definition playerPathCalls :: "Call list" where
  "playerPathCalls =
     [SpawnBulletIfNecessary, MoveBullets, CollideBulletsMushrooms, MoveStarshipIfNecessary]"

definition tickCalls :: "bool \<Rightarrow> bool \<Rightarrow> bool \<Rightarrow> Call list" where
  "tickCalls playerDue centipedesDue menu =
     (if playerDue then playerPathCalls else []) @
     (if centipedesDue then [MoveCentipedes] else []) @
     (if playerDue \<or> centipedesDue then [CollideBulletsCentipedes, CollidePlayerCentipedes] else []) @
     [DisplayImage] @
     (if menu then [RunBreakoutMenu] else [])"

fun isMovement :: "Call \<Rightarrow> bool" where
  "isMovement MoveBullets = True"
| "isMovement MoveStarshipIfNecessary = True"
| "isMovement MoveCentipedes = True"
| "isMovement _ = False"

fun isCollision :: "Call \<Rightarrow> bool" where
  "isCollision CollideBulletsMushrooms = True"
| "isCollision CollideBulletsCentipedes = True"
| "isCollision CollidePlayerCentipedes = True"
| "isCollision _ = False"

fun isGlobalCollision :: "Call \<Rightarrow> bool" where
  "isGlobalCollision CollideBulletsCentipedes = True"
| "isGlobalCollision CollidePlayerCentipedes = True"
| "isGlobalCollision _ = False"

fun isRendering :: "Call \<Rightarrow> bool" where
  "isRendering DisplayImage = True"
| "isRendering _ = False"

fun allBefore :: "(Call \<Rightarrow> bool) \<Rightarrow> (Call \<Rightarrow> bool) \<Rightarrow> Call list \<Rightarrow> bool" where
  "allBefore P Q [] = True"
| "allBefore P Q (c # cs) =
     ((if Q c then list_all (\<lambda>d. \<not> P d) cs else True) \<and> allBefore P Q cs)"

text \<open>
  \<open>allBefore P Q cs\<close>: in the list \<open>cs\<close>, no call with \<open>P\<close> comes after a call with
  \<open>Q\<close>.
\<close>

subsection \<open>Relations between the states before and after a method\<close>

text \<open>
  What decides which paths are due is left as it is; with \<open>sameLives\<close>, the lives are
  too.
\<close>

definition sameSchedule :: "SaveState \<Rightarrow> SaveState \<Rightarrow> bool" where
  "sameSchedule s s' =
     (gameTick s' = gameTick s \<and> settings s' = settings s \<and>
      currentCentipedeModuloGametickSlowdown s' = currentCentipedeModuloGametickSlowdown s)"

definition sameLives :: "SaveState \<Rightarrow> SaveState \<Rightarrow> bool" where
  "sameLives s s' = (sameSchedule s s' \<and> lives s' = lives s)"

text \<open>
  The lives do not grow, the flag is set exactly when it was set before or a life is lost,
  and the record of calls and what decides the paths are left as they are.
\<close>

definition flagFollowsLives :: "GameLogic \<Rightarrow> SaveState \<Rightarrow> GameLogic \<Rightarrow> SaveState \<Rightarrow> bool" where
  "flagFollowsLives g s g' s' =
     (lives s' \<le> lives s \<and> hasDiedInRound g' = (hasDiedInRound g \<or> lives s' < lives s) \<and>
      calls g' = calls g \<and> sameSchedule s s')"

subsection \<open>A playfield to run the methods on\<close>

text \<open>
  Settings with the values of the scenarios of the specification, and game objects that
  never move: the centipedes collide as the specification says, a new centipede has all
  its segments on the spawn cell, and no bullet ever meets a mushroom.
\<close>

definition exampleSettings :: CentipedeSettings where
  "exampleSettings =
     \<lparr>gameTickLength = 50,
      liveLostBreakTime = 1000,
      starshipModuloGametickSlowdown = 2,
      initialCentipedeModuloGametickSlowdown = 5,
      centipedeSpeedIncrementRoundModuloSlowdown = 3,
      centipedeSpeedIncrementAmount = 1,
      initialCentipedeSize = 3,
      centipedeSizeIncrementRoundModuloSlowdown = 4,
      centipedeSizeIncrementAmount = 2,
      centipedeSpawnLine = 0,
      centipedeSpawnColumn = 10,
      pointsForCentipedeHit = 10,
      pointsForMushroomKill = 1,
      pointsForRoundEnd = 100,
      initialStarshipLine = 20,
      initialStarshipColumn = 10,
      initialPlayerHealth = 3\<rparr>"

definition specObjects :: Collaborators where
  "specObjects =
     \<lparr>bulletMove = (\<lambda>b. (True, b)),
      shoot = (\<lambda>sh. \<lparr>bulletPosition = starshipPosition sh\<rparr>),
      starshipMove = (\<lambda>sh d m. sh),
      mushroomCollide = (\<lambda>m b. (False, m)),
      getMushroom = (\<lambda>m l c. 0),
      newMushroomMap = (\<lambda>st. []),
      centipedeMove = (\<lambda>c m cs st. c),
      centipedeCollide = collide,
      isAtPosition = headAtPosition,
      newCentipedeHead =
        (\<lambda>l c d st n. \<lparr>segments = replicate (nat n) (l, c), movingDirection = d\<rparr>)\<rparr>"

text \<open>
  One centipede of four segments and three bullets: the first bullet is on the third
  segment, the second on the head and the third on the last segment.
\<close>

definition exampleChain :: CentipedeHead where
  "exampleChain = \<lparr>segments = [(3, 1), (3, 2), (3, 3), (3, 4)], movingDirection = cRight\<rparr>"

definition exampleScan :: SaveState where
  "exampleScan =
     (newState specObjects exampleSettings)
       \<lparr>centipedes := [exampleChain],
        bullets := [\<lparr>bulletPosition = (3, 3)\<rparr>, \<lparr>bulletPosition = (3, 1)\<rparr>,
                    \<lparr>bulletPosition = (3, 4)\<rparr>]\<rparr>"

definition exampleAfterTailHit :: SaveState where
  "exampleAfterTailHit =
     exampleScan
       \<lparr>centipedes := [exampleChain\<lparr>segments := [(3, 1), (3, 2)]\<rparr>,
                       exampleChain\<lparr>segments := [(3, 4)]\<rparr>],
        bullets := [\<lparr>bulletPosition = (3, 1)\<rparr>, \<lparr>bulletPosition = (3, 4)\<rparr>],
        score := 10\<rparr>"

definition exampleAfterHeadHit :: SaveState where
  "exampleAfterHeadHit =
     exampleAfterTailHit\<lparr>bullets := [\<lparr>bulletPosition = (3, 4)\<rparr>], score := 20\<rparr>"

text \<open>
  A game whose starship stands on the spawn cell of the centipedes, its first round, and
  the state two ticks later: nothing is due in the first tick; in the second the player
  shoots, and the bullet destroys the centipede by a hit on the head.
\<close>

definition idleInput :: TickInput where
  "idleInput = \<lparr>shot = False, direction = none, breakoutMenu = False, resume = False\<rparr>"

definition fireInput :: TickInput where
  "fireInput = \<lparr>shot = True, direction = none, breakoutMenu = False, resume = False\<rparr>"

definition exampleStart :: SaveState where
  "exampleStart = newState specObjects (exampleSettings\<lparr>initialStarshipLine := 0\<rparr>)"

definition exampleRound :: SaveState where
  "exampleRound =
     exampleStart
       \<lparr>centipedes := [\<lparr>segments = [(0, 10), (0, 10), (0, 10)], movingDirection = cLeft\<rparr>],
        currentRound := 1\<rparr>"

definition exampleRoundOver :: SaveState where
  "exampleRoundOver = exampleRound\<lparr>centipedes := [], score := 10, gameTick := 2\<rparr>"

definition exampleRoundCalls :: "Call list" where
  "exampleRoundCalls = tickCalls False False False @ tickCalls True False False"

text \<open>Two centipedes with their heads on the cell of the starship.\<close>

definition exampleTwoHeads :: SaveState where
  "exampleTwoHeads =
     exampleStart
       \<lparr>centipedes := [\<lparr>segments = [(0, 10), (0, 11)], movingDirection = cLeft\<rparr>,
                       \<lparr>segments = [(0, 10), (0, 9)], movingDirection = cRight\<rparr>]\<rparr>"

section \<open>Properties\<close>

subsection \<open>The paths and the slowdown\<close>

lemma smod_eq_0_iff: "m \<noteq> 0 \<Longrightarrow> ((t::int) smod m = 0) = (t mod m = 0)"
  by (auto simp: signed_modulo_int_def sgn_if mod_eq_0_iff_dvd)

lemma sdiv_nonneg: "0 \<le> (r::int) \<Longrightarrow> 0 < n \<Longrightarrow> r sdiv n = r div n"
  by (simp add: signed_divide_int_def sgn_if)

lemma wrapInt_id: "isInt x \<Longrightarrow> wrapInt x = x"
  by (simp add: isInt_def wrapInt_def)

lemma executePathForGametick_mod:
  "m \<noteq> 0 \<Longrightarrow> \<not> (t = - 2147483648 \<and> m = - 1) \<Longrightarrow>
   executePathForGametick t m = Inr (t mod m = 0)"
  by (auto simp: executePathForGametick_def intRem_def smod_eq_0_iff)

lemma executePathForGametick_Inr:
  "executePathForGametick t m = Inr b \<Longrightarrow> b = (t mod m = 0)"
  by (auto simp: executePathForGametick_def intRem_def smod_eq_0_iff split: if_splits)

lemma centipedeScan_end: "\<not> i < length (centipedes s) \<Longrightarrow> centipedeScan coll i s = s"
  by (simp add: centipedeScan.simps [of coll i s])

lemma playerScan_end: "\<not> k < n \<Longrightarrow> playerScan isAt p k n g s = Inr (g, s)"
  by (simp add: playerScan.simps [of isAt p k n g s])

text \<open>
  C6. With a slowdown \<open>m\<close> other than 0, a path is due in tick \<open>t\<close> exactly when
  \<open>t mod m = 0\<close>, but for \<open>t = INT_MIN\<close> with \<open>m = -1\<close>; with slowdown 1 it is due in
  every tick. (With slowdown 0, and for \<open>INT_MIN\<close> with \<open>-1\<close>, the remainder traps.) With
  both slowdowns other than 0 and a tick above \<open>INT_MIN\<close>, \<^verbatim>\<open>handleGlobalCollisions\<close> runs
  the two collisions exactly when the player path or the centipede path is due in the tick,
  and leaves everything as it is otherwise.
\<close>

theorem path_due_iff_tick_mod_slowdown:
  "(m \<noteq> 0 \<and> \<not> (t = - 2147483648 \<and> m = - 1) \<longrightarrow>
      executePathForGametick t m = Inr (t mod m = 0)) \<and>
   executePathForGametick t 1 = Inr True \<and>
   executePathForGametick t 0 = Inl DivisionByZero \<and>
   executePathForGametick (- 2147483648) (- 1) = Inl SignedOverflow \<and>
   (starshipModuloGametickSlowdown (settings s) \<noteq> 0 \<and>
    currentCentipedeModuloGametickSlowdown s \<noteq> 0 \<and> - 2147483648 < gameTick s \<longrightarrow>
      handleGlobalCollisions env g s =
        (if gameTick s mod starshipModuloGametickSlowdown (settings s) = 0 \<or>
            gameTick s mod currentCentipedeModuloGametickSlowdown s = 0
         then collidePlayerCentipedes env
                (called [CollideBulletsCentipedes, CollidePlayerCentipedes] g)
                (collideBulletsCentipedes env s)
         else Inr (g, s)))"
proof -
  have "executePathForGametick t 1 = Inr True"
    using executePathForGametick_mod [of 1 t] by simp
  moreover have "executePathForGametick t 0 = Inl DivisionByZero"
    and "executePathForGametick (- 2147483648) (- 1) = Inl SignedOverflow"
    by (simp_all add: executePathForGametick_def intRem_def)
  ultimately show ?thesis
    by (simp add: executePathForGametick_mod handleGlobalCollisions_def collisionsDue_def)
qed

theorem path_due_iff_tick_mod_slowdown_witness:
  "executePathForGametick 6 3 = Inr True \<and>
   executePathForGametick 7 3 = Inr False \<and>
   executePathForGametick 7 1 = Inr True \<and>
   handleGlobalCollisions specObjects (GameLogic_new False)
       ((newState specObjects exampleSettings)\<lparr>gameTick := 5\<rparr>) =
     Inr (called [CollideBulletsCentipedes, CollidePlayerCentipedes] (GameLogic_new False),
          (newState specObjects exampleSettings)\<lparr>gameTick := 5\<rparr>) \<and>
   handleGlobalCollisions specObjects (GameLogic_new False)
       ((newState specObjects exampleSettings)\<lparr>gameTick := 7\<rparr>) =
     Inr (GameLogic_new False, (newState specObjects exampleSettings)\<lparr>gameTick := 7\<rparr>)"
  using path_due_iff_tick_mod_slowdown [of 3 6]
    path_due_iff_tick_mod_slowdown [of 3 7]
    path_due_iff_tick_mod_slowdown
      [of _ _ "(newState specObjects exampleSettings)\<lparr>gameTick := 5\<rparr>" specObjects
        "GameLogic_new False"]
    path_due_iff_tick_mod_slowdown
      [of _ _ "(newState specObjects exampleSettings)\<lparr>gameTick := 7\<rparr>" specObjects
        "GameLogic_new False"]
  by (simp add: newState_def exampleSettings_def collidePlayerCentipedes_def
      collideBulletsCentipedes_def centipedeScan_end playerScan_end)

text \<open>
  C7. For a round \<open>r \<ge> 0\<close> and a speedup interval above 0, when the product
  \<open>floor (r / speedupInterval) * speedupAmount\<close> and the difference are values of \<^verbatim>\<open>int\<close>,
  the slowdown computed is \<open>initialSlowdown - floor (r / speedupInterval) * speedupAmount\<close>.
  \<^verbatim>\<open>startNextRound\<close> increments the round and, when the size interval is not 0, returns
  with the slowdown of the incremented round stored in the save state. With
  \<open>initialSlowdown = 5\<close>, \<open>speedupInterval = 3\<close>, \<open>speedupAmount = 1\<close> and round 6 the
  slowdown is 3. (Where the product leaves the range of \<^verbatim>\<open>int\<close> the result is the wrapped
  one: 294967301 for 5, 1, 2 and round 2000000000.)
\<close>

theorem slowdown_recomputed_at_round_start:
  "(0 \<le> r \<and> 0 < centipedeSpeedIncrementRoundModuloSlowdown st \<and>
    isInt ((r div centipedeSpeedIncrementRoundModuloSlowdown st)
           * centipedeSpeedIncrementAmount st) \<and>
    isInt (initialCentipedeModuloGametickSlowdown st
           - (r div centipedeSpeedIncrementRoundModuloSlowdown st)
             * centipedeSpeedIncrementAmount st) \<longrightarrow>
      calculateCentipedeSlowdown st r =
        Inr (initialCentipedeModuloGametickSlowdown st
             - (r div centipedeSpeedIncrementRoundModuloSlowdown st)
               * centipedeSpeedIncrementAmount st)) \<and>
   (0 \<le> currentRound s + 1 \<and> 0 < centipedeSpeedIncrementRoundModuloSlowdown (settings s) \<and>
    isInt (((currentRound s + 1) div centipedeSpeedIncrementRoundModuloSlowdown (settings s))
           * centipedeSpeedIncrementAmount (settings s)) \<and>
    isInt (initialCentipedeModuloGametickSlowdown (settings s)
           - ((currentRound s + 1) div centipedeSpeedIncrementRoundModuloSlowdown (settings s))
             * centipedeSpeedIncrementAmount (settings s)) \<and>
    centipedeSizeIncrementRoundModuloSlowdown (settings s) \<noteq> 0 \<longrightarrow>
      (\<exists>s'. startNextRound env goLeft s = Inr s' \<and>
            currentRound s' = currentRound s + 1 \<and>
            currentCentipedeModuloGametickSlowdown s' =
              initialCentipedeModuloGametickSlowdown (settings s)
              - ((currentRound s + 1) div centipedeSpeedIncrementRoundModuloSlowdown (settings s))
                * centipedeSpeedIncrementAmount (settings s))) \<and>
   (initialCentipedeModuloGametickSlowdown st = 5 \<and>
    centipedeSpeedIncrementRoundModuloSlowdown st = 3 \<and>
    centipedeSpeedIncrementAmount st = 1 \<longrightarrow>
      calculateCentipedeSlowdown st 6 = Inr 3) \<and>
   (initialCentipedeModuloGametickSlowdown st = 5 \<and>
    centipedeSpeedIncrementRoundModuloSlowdown st = 1 \<and>
    centipedeSpeedIncrementAmount st = 2 \<longrightarrow>
      calculateCentipedeSlowdown st 2000000000 = Inr 294967301)"
proof -
  have slow: "calculateCentipedeSlowdown st r =
      Inr (initialCentipedeModuloGametickSlowdown st
           - (r div centipedeSpeedIncrementRoundModuloSlowdown st)
             * centipedeSpeedIncrementAmount st)"
    if "0 \<le> r" "0 < centipedeSpeedIncrementRoundModuloSlowdown st"
      "isInt ((r div centipedeSpeedIncrementRoundModuloSlowdown st)
              * centipedeSpeedIncrementAmount st)"
      "isInt (initialCentipedeModuloGametickSlowdown st
              - (r div centipedeSpeedIncrementRoundModuloSlowdown st)
                * centipedeSpeedIncrementAmount st)"
    for st r
    using that
    by (simp add: calculateCentipedeSlowdown_def intDiv_def sdiv_nonneg wrapInt_id)
  have size: "\<exists>n. calculateCentipedeSize st r = Inr n"
    if "0 \<le> r" "centipedeSizeIncrementRoundModuloSlowdown st \<noteq> 0" for st r
    using that by (simp add: calculateCentipedeSize_def intDiv_def)
  have start: "\<exists>s'. startNextRound env goLeft s = Inr s' \<and>
            currentRound s' = currentRound s + 1 \<and>
            currentCentipedeModuloGametickSlowdown s' = v"
    if "calculateCentipedeSlowdown (settings s) (currentRound s + 1) = Inr v"
      "0 \<le> currentRound s + 1" "centipedeSizeIncrementRoundModuloSlowdown (settings s) \<noteq> 0"
    for v
    using that size [of "currentRound s + 1" "settings s"]
    by (auto simp: startNextRound_def incrementCurrentRound_def Let_def)
  have "calculateCentipedeSlowdown st 6 = Inr 3"
    if "initialCentipedeModuloGametickSlowdown st = 5"
      "centipedeSpeedIncrementRoundModuloSlowdown st = 3" "centipedeSpeedIncrementAmount st = 1"
    using that by (simp add: calculateCentipedeSlowdown_def intDiv_def sdiv_nonneg wrapInt_def)
  moreover have "calculateCentipedeSlowdown st 2000000000 = Inr 294967301"
    if "initialCentipedeModuloGametickSlowdown st = 5"
      "centipedeSpeedIncrementRoundModuloSlowdown st = 1" "centipedeSpeedIncrementAmount st = 2"
    using that by (simp add: calculateCentipedeSlowdown_def intDiv_def wrapInt_def)
  ultimately show ?thesis
    using slow [of r st] slow [of "currentRound s + 1" "settings s"] start
    by (intro conjI impI) (blast | simp)+
qed

theorem slowdown_recomputed_at_round_start_witness:
  "calculateCentipedeSlowdown exampleSettings 6 = Inr 3 \<and>
   calculateCentipedeSlowdown exampleSettings 7 = Inr 3 \<and>
   (\<exists>s'. startNextRound specObjects True
           ((newState specObjects exampleSettings)\<lparr>currentRound := 5\<rparr>) = Inr s' \<and>
         currentRound s' = 6 \<and> currentCentipedeModuloGametickSlowdown s' = 3)"
  using slowdown_recomputed_at_round_start
      [of 6 exampleSettings "(newState specObjects exampleSettings)\<lparr>currentRound := 5\<rparr>"
        specObjects True]
    slowdown_recomputed_at_round_start [of 7 exampleSettings]
  by (simp add: newState_def exampleSettings_def isInt_def)

subsection \<open>The game clock\<close>

text \<open>
  C8. With a clock thread already there, \<^verbatim>\<open>startGameClock\<close> throws the logic error and
  leaves the game logic as it was: no second thread is made. With none there, it returns
  the signal and the game logic holds the new thread, which runs \<^verbatim>\<open>executeGameClock\<close>
  with the tick length and that signal.
\<close>

theorem game_clock_starts_once:
  "(gameClock_thread_ptr g \<noteq> None \<longrightarrow>
      startGameClock tickLength g = (Inl (LogicError ''Game Clock already running.''), g)) \<and>
   (gameClock_thread_ptr g = None \<longrightarrow>
      startGameClock tickLength g =
        (Inr Signal, g\<lparr>gameClock_thread_ptr := Some (ExecuteGameClock tickLength Signal)\<rparr>))"
  by (simp add: startGameClock_def)

theorem game_clock_starts_once_witness:
  "startGameClock 50 (GameLogic_new False) =
     (Inr Signal, (GameLogic_new False)\<lparr>gameClock_thread_ptr := Some (ExecuteGameClock 50 Signal)\<rparr>) \<and>
   startGameClock 50 (snd (startGameClock 50 (GameLogic_new False))) =
     (Inl (LogicError ''Game Clock already running.''), snd (startGameClock 50 (GameLogic_new False)))"
  using game_clock_starts_once [of "GameLogic_new False" 50]
    game_clock_starts_once [of "snd (startGameClock 50 (GameLogic_new False))" 50]
  by (simp add: GameLogic_new_def)

subsection \<open>Bullets against centipedes\<close>

lemma centipedeScan_headHit:
  "i < length (centipedes s) \<Longrightarrow> bulletScan coll i 0 s = (True, s') \<Longrightarrow>
   centipedeScan coll i s = centipedeScan coll i (s'\<lparr>centipedes := eraseAt i (centipedes s')\<rparr>)"
  by (simp add: centipedeScan.simps [of coll i s] centipedeTurn_def)

lemma centipedeScan_next:
  "i < length (centipedes s) \<Longrightarrow> bulletScan coll i 0 s = (False, s') \<Longrightarrow>
   centipedeScan coll i s = centipedeScan coll (i + 1) s'"
  by (simp add: centipedeScan.simps [of coll i s] centipedeTurn_def)

lemma centipedeScan_turn:
  "i < length (centipedes s) \<Longrightarrow> centipedeTurn coll (i, s) = (i', s') \<Longrightarrow>
   centipedeScan coll i s = centipedeScan coll i' s'"
  by (simp add: centipedeScan.simps [of coll i s])

text \<open>Induction over the turns of the inner loop, one case for each way a turn can go.\<close>

lemma bulletScan_cases_induct [consumes 1, case_names atEnd noHit tailHit headHit]:
  assumes run: "bulletScan coll i j s = (h, s')"
    and atEnd: "\<And>j s. \<not> j < length (bullets s) \<Longrightarrow> P j s False s"
    and noHit: "\<And>j s sp c' m' h s'.
        j < length (bullets s) \<Longrightarrow>
        coll (centipedes s ! i) (bullets s ! j) (mushroomMap s) = ((noHit, sp), c', m') \<Longrightarrow>
        P (j + 1) (s\<lparr>centipedes := (centipedes s)[i := c'], mushroomMap := m'\<rparr>) h s' \<Longrightarrow>
        P j s h s'"
    and tailHit: "\<And>j s sp c' m' h s'.
        j < length (bullets s) \<Longrightarrow>
        coll (centipedes s ! i) (bullets s ! j) (mushroomMap s) = ((tailHit, sp), c', m') \<Longrightarrow>
        P j (struck i j c' m' sp s) h s' \<Longrightarrow>
        P j s h s'"
    and headHit: "\<And>j s sp c' m'.
        j < length (bullets s) \<Longrightarrow>
        coll (centipedes s ! i) (bullets s ! j) (mushroomMap s) = ((headHit, sp), c', m') \<Longrightarrow>
        P j s True (struck i j c' m' sp s)"
  shows "P j s h s'"
  using run
proof (induction "length (bullets s) - j" arbitrary: j s rule: less_induct)
  case less
  show ?case
  proof (cases "j < length (bullets s)")
    case False
    with less.prems atEnd [of j s] show ?thesis by (simp add: bulletScan_end)
  next
    case True
    obtain hit sp c' m' where
      r: "coll (centipedes s ! i) (bullets s ! j) (mushroomMap s) = ((hit, sp), c', m')"
      by (metis prod.exhaust)
    show ?thesis
    proof (cases hit)
      case noHit
      let ?s1 = "s\<lparr>centipedes := (centipedes s)[i := c'], mushroomMap := m'\<rparr>"
      have "bulletScan coll i (j + 1) ?s1 = (h, s')"
        using less.prems True r noHit by (simp add: bulletScan_noHit)
      moreover have "length (bullets ?s1) - (j + 1) < length (bullets s) - j"
        using True by simp
      ultimately have "P (j + 1) ?s1 h s'"
        using less.hyps [of ?s1 "j + 1"] by simp
      then show ?thesis
        using assms(3) [of j s sp c' m' h s'] True r noHit by simp
    next
      case tailHit
      have "bulletScan coll i j (struck i j c' m' sp s) = (h, s')"
        using less.prems True r tailHit by (simp add: bulletScan_tailHit)
      moreover have "length (bullets (struck i j c' m' sp s)) - j < length (bullets s) - j"
        using True by (simp add: struck_fields length_eraseAt)
      ultimately have "P j (struck i j c' m' sp s) h s'"
        using less.hyps [of "struck i j c' m' sp s" j] by simp
      then show ?thesis
        using assms(4) [of j s sp c' m' h s'] True r tailHit by simp
    next
      case headHit
      have "h = True \<and> s' = struck i j c' m' sp s"
        using less.prems True r headHit by (simp add: bulletScan_headHit)
      then show ?thesis
        using assms(5) [of j s sp c' m'] True r headHit by simp
    qed
  qed
qed

lemma bulletScan_others:
  "bulletScan coll i j s = (h, s') \<Longrightarrow> k < length (centipedes s) \<Longrightarrow> k \<noteq> i \<Longrightarrow>
   centipedes s' ! k = centipedes s ! k"
  by (induction rule: bulletScan_cases_induct)
     (simp_all add: struck_fields nth_append)

lemma subseq_eraseAt: "subseq (eraseAt j xs) xs"
proof -
  have "sublist (drop 1 (drop j xs)) (drop j xs)"
    by (rule sublist_drop)
  then have "subseq (drop (Suc j) xs) (drop j xs)"
    by (simp add: sublist_imp_subseq)
  then have "subseq (take j xs @ drop (Suc j) xs) (take j xs @ drop j xs)"
    by (simp only: subseq_append')
  then show ?thesis
    by (simp add: eraseAt_def)
qed

lemma bulletScan_subseq:
  "bulletScan coll i j s = (h, s') \<Longrightarrow> subseq (bullets s') (bullets s)"
proof (induction rule: bulletScan_cases_induct)
  case (tailHit j s sp c' m' h s')
  then show ?case
    using subseq_eraseAt [of j "bullets s"] by (auto simp: struck_fields intro: subseq_order.order_trans)
qed (simp_all add: struck_fields subseq_eraseAt)


lemma nth_eraseAt_above:
  "i \<le> k \<Longrightarrow> Suc k < length xs \<Longrightarrow> eraseAt i xs ! k = xs ! Suc k"
  by (simp add: eraseAt_def nth_append min_def)

text \<open>
  A turn on the centipede at offset \<open>i\<close> brings every centipede behind it, one pushed in
  this turn too, one turn nearer to the iterator, and leaves it as it is.
\<close>

lemma centipedeTurn_shift:
  assumes "i < length (centipedes s)" and "bulletScan coll i 0 s = (h, sb)"
    and "i < k" and "k < length (centipedes sb)"
    and "centipedeTurn coll (i, s) = (i1, s1)"
  shows "\<exists>k1. i1 \<le> k1 \<and> k1 < length (centipedes s1) \<and> k1 - i1 = k - i - 1 \<and>
              centipedes s1 ! k1 = centipedes sb ! k \<and> bullets s1 = bullets sb \<and>
              centipedeScan coll i s = centipedeScan coll i1 s1"
proof (cases h)
  case True
  with assms(2,5) have e: "i1 = i" "s1 = sb\<lparr>centipedes := eraseAt i (centipedes sb)\<rparr>"
    by (auto simp: centipedeTurn_def)
  have "eraseAt i (centipedes sb) ! (k - 1) = centipedes sb ! k"
    using nth_eraseAt_above [of i "k - 1" "centipedes sb"] assms(3,4) by simp
  moreover have "length (eraseAt i (centipedes sb)) = length (centipedes sb) - 1"
    using assms(3,4) by (simp add: length_eraseAt)
  ultimately show ?thesis
    using e assms(1,3,4) centipedeScan_turn [OF assms(1,5)]
    by (intro exI [of _ "k - 1"]) auto
next
  case False
  with assms(2,5) have "i1 = i + 1" "s1 = sb"
    by (auto simp: centipedeTurn_def)
  then show ?thesis
    using assms(1,3,4) centipedeScan_turn [OF assms(1,5)]
    by (intro exI [of _ k]) auto
qed

text \<open>
  The centipede at an offset \<open>k\<close> from the iterator on is under the iterator after
  \<open>k - i\<close> turns, unchanged, and the loop has run these turns.
\<close>

lemma centipedeTurns_reach:
  "i \<le> k \<Longrightarrow> k < length (centipedes s) \<Longrightarrow>
   (centipedeTurn coll ^^ (k - i)) (i, s) = (i', s') \<Longrightarrow>
   i' < length (centipedes s') \<and> centipedes s' ! i' = centipedes s ! k \<and>
   subseq (bullets s') (bullets s) \<and> centipedeScan coll i s = centipedeScan coll i' s'"
proof (induction "k - i" arbitrary: i s k)
  case 0
  then show ?case by simp
next
  case (Suc n)
  from Suc.hyps(2) have ik: "i < k" by simp
  with Suc.prems(2) have i: "i < length (centipedes s)" by simp
  obtain h sb where r: "bulletScan coll i 0 s = (h, sb)" by (metis prod.exhaust)
  obtain i1 s1 where t: "centipedeTurn coll (i, s) = (i1, s1)" by (metis prod.exhaust)
  have ksb: "k < length (centipedes sb)"
    using bulletScan_lengths [OF r] Suc.prems(2) by simp
  from centipedeTurn_shift [OF i r ik ksb t] obtain k1 where
    k1: "i1 \<le> k1" "k1 < length (centipedes s1)" "k1 - i1 = k - i - 1"
      "centipedes s1 ! k1 = centipedes sb ! k" "bullets s1 = bullets sb"
      "centipedeScan coll i s = centipedeScan coll i1 s1"
    by blast
  have n: "n = k1 - i1" using k1(3) Suc.hyps(2) by simp
  have "k - i = Suc (k1 - i1)" using n Suc.hyps(2) by simp
  with Suc.prems(3) have "(centipedeTurn coll ^^ Suc (k1 - i1)) (i, s) = (i', s')"
    by (simp only:)
  then have "(centipedeTurn coll ^^ (k1 - i1)) (centipedeTurn coll (i, s)) = (i', s')"
    by (simp only: funpow_Suc_right o_apply)
  then have "(centipedeTurn coll ^^ (k1 - i1)) (i1, s1) = (i', s')"
    by (simp only: t)
  from Suc.hyps(1) [OF n k1(1,2) this]
  show ?case
    using k1(4,5,6) bulletScan_others [OF r Suc.prems(2)] ik bulletScan_subseq [OF r]
    by (auto intro: subseq_order.order_trans)
qed

lemma firstSegmentAt_nth:
  assumes "d < length segs" "segs ! d = p" "p \<notin> set (take d segs)"
  shows "firstSegmentAt p segs = Some d"
proof -
  have "takeWhile (\<lambda>q. q \<noteq> p) segs = take d segs"
  proof (rule takeWhile_eq_take_P_nth)
    fix k assume "k < d" "k < length segs"
    then have "segs ! k \<in> set (take d segs)"
      by (metis in_set_conv_nth length_take min_less_iff_conj nth_take)
    with assms(3) show "segs ! k \<noteq> p" by auto
  next
    show "d < length segs \<Longrightarrow> \<not> segs ! d \<noteq> p" using assms(2) by simp
  qed
  moreover have "p \<in> set segs" using assms(1,2) by (metis nth_mem)
  ultimately show ?thesis using assms(1) by (simp add: firstSegmentAt_def)
qed

lemma collide_tailHit:
  assumes "0 < d" "d < length (segments c)" "segments c ! d = bulletPosition b"
    "bulletPosition b \<notin> set (take d (segments c))"
  shows "collide c b m =
           ((tailHit, if d < length (segments c) - 1
                      then Some (c\<lparr>segments := drop (d + 1) (segments c)\<rparr>) else None),
            c\<lparr>segments := take d (segments c)\<rparr>, m)"
  using assms by (simp add: collide_def firstSegmentAt_nth)

lemma eraseAt_update_append:
  "i < length xs \<Longrightarrow> eraseAt i (xs[i := x] @ ys) = take i xs @ drop (Suc i) xs @ ys"
  by (simp add: eraseAt_def)

text \<open>The scan of the example: the first bullet, then the second.\<close>

lemma exampleScan_first_bullet:
  "bulletScan collide 0 0 exampleScan = bulletScan collide 0 0 exampleAfterTailHit"
proof -
  have "collide (centipedes exampleScan ! 0) (bullets exampleScan ! 0) (mushroomMap exampleScan) =
          ((tailHit, Some (exampleChain\<lparr>segments := [(3, 4)]\<rparr>)),
           exampleChain\<lparr>segments := [(3, 1), (3, 2)]\<rparr>, mushroomMap exampleScan)"
    by (simp add: exampleScan_def exampleChain_def collide_def firstSegmentAt_def)
  then have "bulletScan collide 0 0 exampleScan =
      bulletScan collide 0 0
        (struck 0 0 (exampleChain\<lparr>segments := [(3, 1), (3, 2)]\<rparr>) (mushroomMap exampleScan)
           (Some (exampleChain\<lparr>segments := [(3, 4)]\<rparr>)) exampleScan)"
    by (rule bulletScan_tailHit [rotated]) (simp add: exampleScan_def)
  moreover have "struck 0 0 (exampleChain\<lparr>segments := [(3, 1), (3, 2)]\<rparr>) (mushroomMap exampleScan)
      (Some (exampleChain\<lparr>segments := [(3, 4)]\<rparr>)) exampleScan = exampleAfterTailHit"
    by (simp add: struck_def Let_def increaseScore_def addToScore_def exampleAfterTailHit_def
        exampleScan_def newState_def exampleSettings_def eraseAt_def)
  ultimately show ?thesis by simp
qed

lemma exampleScan_second_bullet:
  "bulletScan collide 0 0 exampleAfterTailHit = (True, exampleAfterHeadHit)"
  by (simp add: bulletScan.simps exampleAfterHeadHit_def
      exampleAfterTailHit_def exampleScan_def exampleChain_def collide_def firstSegmentAt_def
      increaseScore_def addToScore_def eraseAt_def newState_def exampleSettings_def Let_def)

text \<open>
  C1. Let the bullet at offset \<open>j\<close> be on segment \<open>d > 0\<close> of the centipede at offset \<open>i\<close>
  and on no segment before it, and let the centipede have \<open>L\<close> segments. Then the scan
  goes on, against the same centipede and from the same offset of the bullets, in the save
  state where the centipede keeps its first \<open>d\<close> segments, the bullet is erased, the score
  is raised by the points of one centipede hit, and the segments behind the struck one are
  pushed to the back as one new centipede when \<open>d < L - 1\<close> (it has \<open>L - 1 - d\<close>
  segments), and nothing is pushed when \<open>d = L - 1\<close>.
\<close>

theorem tail_hit_splits_chain:
  assumes "i < length (centipedes s)" and "j < length (bullets s)"
    and "c = centipedes s ! i"
    and "0 < d" and "d < length (segments c)"
    and "segments c ! d = bulletPosition (bullets s ! j)"
    and "bulletPosition (bullets s ! j) \<notin> set (take d (segments c))"
  shows "bulletScan collide i j s =
           bulletScan collide i j
             (s\<lparr>centipedes :=
                  (centipedes s)[i := c\<lparr>segments := take d (segments c)\<rparr>] @
                  (if d < length (segments c) - 1
                   then [c\<lparr>segments := drop (d + 1) (segments c)\<rparr>] else []),
                bullets := eraseAt j (bullets s),
                score := score s + pointsForCentipedeHit (settings s)\<rparr>) \<and>
         length (take d (segments c)) = d \<and>
         length (drop (d + 1) (segments c)) = length (segments c) - 1 - d"
proof -
  let ?sp = "if d < length (segments c) - 1
             then Some (c\<lparr>segments := drop (d + 1) (segments c)\<rparr>) else None"
  let ?c' = "c\<lparr>segments := take d (segments c)\<rparr>"
  have "collide (centipedes s ! i) (bullets s ! j) (mushroomMap s) =
          ((tailHit, ?sp), ?c', mushroomMap s)"
    using assms(3-7) collide_tailHit [of d c "bullets s ! j" "mushroomMap s"] by simp
  then have "bulletScan collide i j s =
               bulletScan collide i j (struck i j ?c' (mushroomMap s) ?sp s)"
    using assms(2) by (rule bulletScan_tailHit [rotated])
  moreover have "struck i j ?c' (mushroomMap s) ?sp s =
      s\<lparr>centipedes :=
           (centipedes s)[i := ?c'] @
           (if d < length (segments c) - 1
            then [c\<lparr>segments := drop (d + 1) (segments c)\<rparr>] else []),
         bullets := eraseAt j (bullets s),
         score := score s + pointsForCentipedeHit (settings s)\<rparr>"
    by (simp add: struck_def Let_def increaseScore_def addToScore_def)
  ultimately show ?thesis using assms(5) by simp
qed

theorem tail_hit_splits_chain_witness:
  "bulletScan collide 0 0 exampleScan = bulletScan collide 0 0 exampleAfterTailHit \<and>
   bulletScan collide 0 0 (exampleScan\<lparr>bullets := [\<lparr>bulletPosition = (3, 4)\<rparr>]\<rparr>) =
     bulletScan collide 0 0
       (exampleScan\<lparr>centipedes := [exampleChain\<lparr>segments := [(3, 1), (3, 2), (3, 3)]\<rparr>],
                    bullets := [], score := 10\<rparr>)"
  using tail_hit_splits_chain [of 0 exampleScan 0 exampleChain 2]
    tail_hit_splits_chain
      [of 0 "exampleScan\<lparr>bullets := [\<lparr>bulletPosition = (3, 4)\<rparr>]\<rparr>" 0 exampleChain 3]
  by (simp add: exampleScan_def exampleAfterTailHit_def exampleChain_def newState_def
      exampleSettings_def eraseAt_def)

text \<open>
  C2. Let the scan of the centipede at offset \<open>i\<close>, begun in the save state \<open>s0\<close>, have
  come to the bullet at offset \<open>j\<close> in the save state \<open>s\<close>, and let \<^verbatim>\<open>collide\<close> report a
  hit on the head there. Then the scan ends at once with the flag set: the bullet is erased,
  the bullets behind it are not tested, and the score is raised by the points of one
  centipede hit. The outer loop erases the centipede and goes on at the same offset; all
  other centipedes of \<open>s\<close>, those pushed earlier in this scan among them, stay in the
  vector.
\<close>

theorem head_hit_removes_chain:
  assumes "i < length (centipedes s0)"
    and "bulletScan coll i 0 s0 = bulletScan coll i j s"
    and "i < length (centipedes s)" and "j < length (bullets s)"
    and "coll (centipedes s ! i) (bullets s ! j) (mushroomMap s) = ((headHit, sp), c', m')"
  shows "\<exists>s'. bulletScan coll i j s = (True, s') \<and>
           bullets s' = eraseAt j (bullets s) \<and>
           score s' = score s + pointsForCentipedeHit (settings s) \<and>
           centipedeScan coll i s0 =
             centipedeScan coll i (s'\<lparr>centipedes := eraseAt i (centipedes s')\<rparr>) \<and>
           eraseAt i (centipedes s') =
             take i (centipedes s) @ drop (Suc i) (centipedes s) @
             (case sp of None \<Rightarrow> [] | Some t \<Rightarrow> [t])"
proof -
  let ?s' = "struck i j c' m' sp s"
  have scan: "bulletScan coll i j s = (True, ?s')"
    using assms(4,5) by (rule bulletScan_headHit)
  then have "bulletScan coll i 0 s0 = (True, ?s')"
    using assms(2) by simp
  then have "centipedeScan coll i s0 =
               centipedeScan coll i (?s'\<lparr>centipedes := eraseAt i (centipedes ?s')\<rparr>)"
    using assms(1) by (simp add: centipedeScan_headHit)
  moreover have "eraseAt i (centipedes ?s') =
      take i (centipedes s) @ drop (Suc i) (centipedes s) @
      (case sp of None \<Rightarrow> [] | Some t \<Rightarrow> [t])"
    using assms(3) by (simp add: struck_fields eraseAt_update_append)
  ultimately show ?thesis
    using scan by (simp add: struck_fields)
qed


theorem head_hit_removes_chain_witness:
  "\<exists>s'. bulletScan collide 0 0 exampleAfterTailHit = (True, s') \<and>
         bullets s' = [\<lparr>bulletPosition = (3, 4)\<rparr>] \<and> score s' = 20 \<and>
         centipedeScan collide 0 exampleScan =
           centipedeScan collide 0 (s'\<lparr>centipedes := eraseAt 0 (centipedes s')\<rparr>) \<and>
         eraseAt 0 (centipedes s') = [exampleChain\<lparr>segments := [(3, 4)]\<rparr>]"
proof -
  have "collide (centipedes exampleAfterTailHit ! 0) (bullets exampleAfterTailHit ! 0)
          (mushroomMap exampleAfterTailHit) =
        ((headHit, None), exampleChain\<lparr>segments := [(3, 1), (3, 2)]\<rparr>,
         mushroomMap exampleAfterTailHit)"
    by (simp add: exampleAfterTailHit_def exampleChain_def collide_def firstSegmentAt_def)
  from head_hit_removes_chain [OF _ exampleScan_first_bullet _ _ this]
  show ?thesis
    by (simp add: exampleScan_def exampleAfterTailHit_def exampleChain_def newState_def
        exampleSettings_def eraseAt_def)
qed

text \<open>
  C9. Let the scan of the centipede at offset \<open>i\<close> leave the save state \<open>s'\<close>, and let
  \<open>k\<close> be the offset in \<open>s'\<close> of a centipede pushed during that scan. Then the outer loop
  runs \<open>k - i\<close> turns, the turn of that scan being the first, and comes to a save state in
  which the iterator is inside the vector and on the pushed centipede, with bullets that
  the scan left, in their order; its next turn scans these bullets against that centipede.
\<close>

theorem split_chain_scanned_in_same_pass:
  assumes "i < length (centipedes s)"
    and "bulletScan coll i 0 s = (headWasHit, s')"
    and "length (centipedes s) \<le> k" and "k < length (centipedes s')"
    and "(centipedeTurn coll ^^ (k - i)) (i, s) = (i', s'')"
  shows "i' < length (centipedes s'') \<and>
         centipedes s'' ! i' = centipedes s' ! k \<and>
         subseq (bullets s'') (bullets s') \<and>
         centipedeScan coll i s = centipedeScan coll i' s'' \<and>
         centipedeScan coll i' s'' =
           (case bulletScan coll i' 0 s'' of
              (hit, s2) \<Rightarrow>
                if hit then centipedeScan coll i' (s2\<lparr>centipedes := eraseAt i' (centipedes s2)\<rparr>)
                else centipedeScan coll (i' + 1) s2)"
proof -
  obtain i1 s1 where t: "centipedeTurn coll (i, s) = (i1, s1)" by (metis prod.exhaust)
  have ik: "i < k" using assms(1,3) by simp
  from centipedeTurn_shift [OF assms(1,2) ik assms(4) t] obtain k1 where
    k1: "i1 \<le> k1" "k1 < length (centipedes s1)" "k1 - i1 = k - i - 1"
      "centipedes s1 ! k1 = centipedes s' ! k" "bullets s1 = bullets s'"
      "centipedeScan coll i s = centipedeScan coll i1 s1"
    by blast
  have "k - i = Suc (k1 - i1)" using k1(3) ik by simp
  with assms(5) have "(centipedeTurn coll ^^ Suc (k1 - i1)) (i, s) = (i', s'')"
    by (simp only:)
  then have "(centipedeTurn coll ^^ (k1 - i1)) (centipedeTurn coll (i, s)) = (i', s'')"
    by (simp only: funpow_Suc_right o_apply)
  then have "(centipedeTurn coll ^^ (k1 - i1)) (i1, s1) = (i', s'')"
    by (simp only: t)
  from centipedeTurns_reach [OF k1(1,2) this]
  have reach: "i' < length (centipedes s'')" "centipedes s'' ! i' = centipedes s' ! k"
    "subseq (bullets s'') (bullets s')" "centipedeScan coll i s = centipedeScan coll i' s''"
    using k1(4,5,6) by simp_all
  obtain hit s2 where r: "bulletScan coll i' 0 s'' = (hit, s2)" by (metis prod.exhaust)
  have "centipedeScan coll i' s'' =
          (if hit then centipedeScan coll i' (s2\<lparr>centipedes := eraseAt i' (centipedes s2)\<rparr>)
           else centipedeScan coll (i' + 1) s2)"
    using reach(1) r by (cases hit) (simp_all add: centipedeScan_headHit centipedeScan_next)
  with reach r show ?thesis by simp
qed

theorem split_chain_scanned_in_same_pass_witness:
  "centipedeScan collide 0 exampleScan =
     centipedeScan collide 0
       (exampleAfterHeadHit\<lparr>centipedes := [exampleChain\<lparr>segments := [(3, 4)]\<rparr>]\<rparr>) \<and>
   bullets exampleAfterHeadHit = [\<lparr>bulletPosition = (3, 4)\<rparr>] \<and>
   centipedeScan collide 0 exampleScan =
     exampleScan\<lparr>centipedes := [], bullets := [], score := 30\<rparr>"
proof -
  have scan: "bulletScan collide 0 0 exampleScan = (True, exampleAfterHeadHit)"
    using exampleScan_first_bullet exampleScan_second_bullet by simp
  have turn: "(centipedeTurn collide ^^ (1 - 0)) (0, exampleScan) =
      (0, exampleAfterHeadHit\<lparr>centipedes := [exampleChain\<lparr>segments := [(3, 4)]\<rparr>]\<rparr>)"
    using scan
    by (simp add: centipedeTurn_def exampleAfterHeadHit_def exampleAfterTailHit_def eraseAt_def)
  from split_chain_scanned_in_same_pass [OF _ scan _ _ turn]
  have "centipedeScan collide 0 exampleScan =
     centipedeScan collide 0
       (exampleAfterHeadHit\<lparr>centipedes := [exampleChain\<lparr>segments := [(3, 4)]\<rparr>]\<rparr>)"
    by (simp add: exampleScan_def exampleAfterHeadHit_def exampleAfterTailHit_def)
  moreover have "centipedeScan collide 0
       (exampleAfterHeadHit\<lparr>centipedes := [exampleChain\<lparr>segments := [(3, 4)]\<rparr>]\<rparr>) =
     exampleScan\<lparr>centipedes := [], bullets := [], score := 30\<rparr>"
    by (simp add: centipedeScan.simps centipedeTurn_def bulletScan.simps exampleScan_def
        exampleAfterHeadHit_def exampleAfterTailHit_def exampleChain_def
        collide_def firstSegmentAt_def increaseScore_def addToScore_def eraseAt_def
        newState_def exampleSettings_def Let_def)
  ultimately show ?thesis
    by (simp add: exampleAfterHeadHit_def)
qed

subsection \<open>The lives, the flag and the calls\<close>

lemma collideBulletsMushroomsFrom_lives:
  "collideBulletsMushroomsFrom env bs s = (kept, s') \<Longrightarrow> sameLives s s'"
proof (induction bs arbitrary: s kept s')
  case Nil
  then show ?case by (simp add: sameLives_def sameSchedule_def)
next
  case (Cons b bs)
  obtain hit m' where c: "mushroomCollide env (mushroomMap s) b = (hit, m')"
    by (metis prod.exhaust)
  show ?case
  proof (cases hit)
    case True
    with Cons.prems c show ?thesis
      by (auto simp: Let_def increaseScore_def addToScore_def sameLives_def sameSchedule_def dest!: Cons.IH
          split: if_splits)
  next
    case False
    with Cons.prems c show ?thesis
      by (auto simp: Let_def sameLives_def sameSchedule_def dest!: Cons.IH split: prod.splits)
  qed
qed

lemma collideBulletsMushrooms_schedule: "sameLives s (collideBulletsMushrooms env s)"
proof -
  obtain kept s' where r: "collideBulletsMushroomsFrom env (bullets s) s = (kept, s')"
    by (metis prod.exhaust)
  from collideBulletsMushroomsFrom_lives [OF r] r show ?thesis
    by (simp add: collideBulletsMushrooms_def sameLives_def sameSchedule_def)
qed

lemma playerPath_schedule:
  "sameLives s
     (moveStarshipIfNecessary env d
        (collideBulletsMushrooms env (moveBullets env (spawnBulletIfNecessary env sh s))))"
  using collideBulletsMushrooms_schedule [of "moveBullets env (spawnBulletIfNecessary env sh s)" env]
  by (simp add: sameLives_def sameSchedule_def spawnBulletIfNecessary_def moveBullets_def
      moveStarshipIfNecessary_def)

lemma moveCentipedes_schedule: "sameLives s (moveCentipedes env s)"
  by (simp add: sameLives_def sameSchedule_def moveCentipedes_def)

lemma bulletScan_schedule: "bulletScan coll i j s = (h, s') \<Longrightarrow> sameLives s s'"
  by (induction rule: bulletScan_cases_induct) (simp_all add: struck_fields sameLives_def sameSchedule_def)

lemma centipedeScan_schedule: "sameLives s (centipedeScan coll i s)"
proof (induction "length (centipedes s) + length (bullets s) - i" arbitrary: i s
    rule: less_induct)
  case less
  show ?case
  proof (cases "i < length (centipedes s)")
    case False
    then show ?thesis by (simp add: centipedeScan_end sameLives_def sameSchedule_def)
  next
    case True
    obtain h sb where r: "bulletScan coll i 0 s = (h, sb)" by (metis prod.exhaust)
    obtain i1 s1 where t: "centipedeTurn coll (i, s) = (i1, s1)" by (metis prod.exhaust)
    have "sameLives s s1"
      using bulletScan_schedule [OF r] r t
      by (cases h) (auto simp: centipedeTurn_def sameLives_def sameSchedule_def)
    moreover have "sameLives s1 (centipedeScan coll i1 s1)"
      using less.hyps [OF centipedeTurn_measure [OF True t]] .
    ultimately show ?thesis
      using centipedeScan_turn [OF True t] by (auto simp: sameLives_def sameSchedule_def)
  qed
qed

lemma flagFollowsLives_refl: "flagFollowsLives g s g s"
  by (simp add: flagFollowsLives_def sameSchedule_def)

lemma flagFollowsLives_trans:
  "flagFollowsLives g s g1 s1 \<Longrightarrow> flagFollowsLives g1 s1 g2 s2 \<Longrightarrow> flagFollowsLives g s g2 s2"
  by (auto simp: flagFollowsLives_def sameSchedule_def)

lemma flagFollowsLives_loseLive:
  "loseLive g s = (g', s') \<Longrightarrow> flagFollowsLives g s g' s'"
  by (auto simp: loseLive_def SaveState_loseLive_def flagFollowsLives_def sameSchedule_def)

lemma playerScan_flag:
  "playerScan isAt p k n g s = Inr (g', s') \<Longrightarrow> flagFollowsLives g s g' s'"
proof (induction isAt p k n g s rule: playerScan.induct)
  case (1 isAt p k n g s)
  show ?case
  proof (cases "k < n")
    case False
    with "1.prems" show ?thesis by (simp add: playerScan_end flagFollowsLives_refl)
  next
    case True
    show ?thesis
    proof (cases "k < length (centipedes s)")
      case False
      with True "1.prems" show ?thesis by (simp add: playerScan.simps [of isAt p k n g s])
    next
      case inRange: True
      show ?thesis
      proof (cases "isAt (centipedes s ! k) p")
        case False
        with True inRange "1.prems" have "playerScan isAt p (k + 1) n g s = Inr (g', s')"
          by (simp add: playerScan.simps [of isAt p k n g s])
        with "1.IH"(1) [OF True inRange refl] False show ?thesis by simp
      next
        case hit: True
        obtain g1 s1 where l: "loseLive g s = (g1, s1)" by (metis prod.exhaust)
        with True inRange hit "1.prems" have "playerScan isAt p (k + 1) n g1 s1 = Inr (g', s')"
          by (simp add: playerScan.simps [of isAt p k n g s])
        with "1.IH"(2) [OF True inRange refl _ l [symmetric]] hit
        have "flagFollowsLives g1 s1 g' s'" by simp
        with flagFollowsLives_loseLive [OF l] show ?thesis
          by (rule flagFollowsLives_trans)
      qed
    qed
  qed
qed

lemma loseAllLives_flag: "loseAllLives g s = (g', s') \<Longrightarrow> flagFollowsLives g s g' s'"
proof (induction g s rule: loseAllLives.induct)
  case (1 g s)
  show ?case
  proof (cases "alive s")
    case False
    with "1.prems" show ?thesis
      by (simp add: loseAllLives.simps [of g s] flagFollowsLives_refl)
  next
    case True
    obtain g1 s1 where l: "loseLive g s = (g1, s1)" by (metis prod.exhaust)
    with True "1.prems" have "loseAllLives g1 s1 = (g', s')"
      by (simp add: loseAllLives.simps [of g s])
    with "1.IH" [OF True l [symmetric]] have "flagFollowsLives g1 s1 g' s'" by simp
    with flagFollowsLives_loseLive [OF l] show ?thesis
      by (rule flagFollowsLives_trans)
  qed
qed


lemma handlePlayerControlledEntities_effect:
  assumes "handlePlayerControlledEntities env inp g s = Inr (g', s')"
  shows "executePathForGametick (gameTick s) (starshipModuloGametickSlowdown (settings s)) =
           Inr (gameTick s mod starshipModuloGametickSlowdown (settings s) = 0) \<and>
         g' = called (if gameTick s mod starshipModuloGametickSlowdown (settings s) = 0
                      then playerPathCalls else []) g \<and>
         sameLives s s'"
proof -
  from assms obtain b where
    e: "executePathForGametick (gameTick s) (starshipModuloGametickSlowdown (settings s)) = Inr b"
    by (auto simp: handlePlayerControlledEntities_def split: sum.splits)
  note b = executePathForGametick_Inr [OF e]
  from assms e b playerPath_schedule [of s env "direction inp" "shot inp"] show ?thesis
    by (auto simp: handlePlayerControlledEntities_def Let_def
        playerPathCalls_def called_def sameLives_def sameSchedule_def split: if_splits)
qed

lemma handleCentipedes_effect:
  assumes "handleCentipedes env g s = Inr (g', s')"
  shows "executePathForGametick (gameTick s) (currentCentipedeModuloGametickSlowdown s) =
           Inr (gameTick s mod currentCentipedeModuloGametickSlowdown s = 0) \<and>
         g' = called (if gameTick s mod currentCentipedeModuloGametickSlowdown s = 0
                      then [MoveCentipedes] else []) g \<and>
         sameLives s s'"
proof -
  from assms obtain b where
    e: "executePathForGametick (gameTick s) (currentCentipedeModuloGametickSlowdown s) = Inr b"
    by (auto simp: handleCentipedes_def split: sum.splits)
  note b = executePathForGametick_Inr [OF e]
  from assms e b moveCentipedes_schedule [of s env] show ?thesis
    by (auto simp: handleCentipedes_def called_def
        sameLives_def sameSchedule_def split: if_splits)
qed

lemma handleGlobalCollisions_effect:
  assumes "handleGlobalCollisions env g s = Inr (g', s')"
    and "executePathForGametick (gameTick s) (starshipModuloGametickSlowdown (settings s)) =
           Inr (gameTick s mod starshipModuloGametickSlowdown (settings s) = 0)"
    and "executePathForGametick (gameTick s) (currentCentipedeModuloGametickSlowdown s) =
           Inr (gameTick s mod currentCentipedeModuloGametickSlowdown s = 0)"
  shows "flagFollowsLives
           (called (if gameTick s mod starshipModuloGametickSlowdown (settings s) = 0 \<or>
                       gameTick s mod currentCentipedeModuloGametickSlowdown s = 0
                    then [CollideBulletsCentipedes, CollidePlayerCentipedes] else []) g)
           s g' s'"
proof (cases "gameTick s mod starshipModuloGametickSlowdown (settings s) = 0 \<or>
              gameTick s mod currentCentipedeModuloGametickSlowdown s = 0")
  case False
  with assms show ?thesis
    by (auto simp: handleGlobalCollisions_def collisionsDue_def
        called_def flagFollowsLives_refl)
next
  case True
  let ?g1 = "called [CollideBulletsCentipedes, CollidePlayerCentipedes] g"
  let ?s1 = "collideBulletsCentipedes env s"
  from True assms have "collidePlayerCentipedes env ?g1 ?s1 = Inr (g', s')"
    by (auto simp: handleGlobalCollisions_def collisionsDue_def
        Let_def split: if_splits)
  then have "flagFollowsLives ?g1 ?s1 g' s'"
    by (auto simp: collidePlayerCentipedes_def Let_def dest: playerScan_flag)
  moreover have "sameLives s ?s1"
    by (simp add: collideBulletsCentipedes_def centipedeScan_schedule)
  ultimately show ?thesis
    using True by (auto simp: flagFollowsLives_def sameLives_def sameSchedule_def)
qed

lemma breakGameIfNecessary_effect:
  assumes "breakGameIfNecessary inp g s = (g', s')"
  shows "flagFollowsLives (called (if breakoutMenu inp then [RunBreakoutMenu] else []) g) s g' s'"
  using assms
  by (auto simp: breakGameIfNecessary_def Let_def called_def flagFollowsLives_refl
      dest: loseAllLives_flag split: if_splits)

lemma gameLoopTick_effect:
  assumes "gameLoopTick env inp g s = Inr (g', s')"
  shows "lives s' \<le> lives s \<and>
         hasDiedInRound g' = (hasDiedInRound g \<or> lives s' < lives s) \<and>
         calls g' =
           calls g @
           tickCalls ((gameTick s + 1) mod starshipModuloGametickSlowdown (settings s) = 0)
             ((gameTick s + 1) mod currentCentipedeModuloGametickSlowdown s = 0)
             (breakoutMenu inp)"
proof -
  let ?s0 = "incrementGameTick s"
  from assms obtain g1 s1 g2 s2 g3 s3 where
    p: "handlePlayerControlledEntities env inp g ?s0 = Inr (g1, s1)" and
    c: "handleCentipedes env g1 s1 = Inr (g2, s2)" and
    k: "handleGlobalCollisions env g2 s2 = Inr (g3, s3)" and
    b: "breakGameIfNecessary inp (printGame g3) s3 = (g', s')"
    by (auto simp: gameLoopTick_def Let_def split: sum.splits prod.splits)
  note P = handlePlayerControlledEntities_effect [OF p]
  note C = handleCentipedes_effect [OF c]
  have "executePathForGametick (gameTick s2) (starshipModuloGametickSlowdown (settings s2)) =
          Inr (gameTick s2 mod starshipModuloGametickSlowdown (settings s2) = 0)"
    and "executePathForGametick (gameTick s2) (currentCentipedeModuloGametickSlowdown s2) =
          Inr (gameTick s2 mod currentCentipedeModuloGametickSlowdown s2 = 0)"
    using P C by (auto simp: sameLives_def sameSchedule_def)
  note K = handleGlobalCollisions_effect [OF k this]
  note B = breakGameIfNecessary_effect [OF b]
  show ?thesis
    using P C K B
    by (auto simp: sameLives_def sameSchedule_def flagFollowsLives_def incrementGameTick_def
        called_def printGame_def tickCalls_def)
qed

lemma playRound_effect:
  "playRound env inps g s = Some (Inr (g', s', rest)) \<Longrightarrow>
   lives s' \<le> lives s \<and> hasDiedInRound g' = (hasDiedInRound g \<or> lives s' < lives s)"
proof (induction inps arbitrary: g s)
  case Nil
  then show ?case by (simp split: if_splits)
next
  case (Cons inp inps)
  show ?case
  proof (cases "alive s \<and> continueRound (centipedes s)")
    case False
    with Cons.prems show ?thesis by auto
  next
    case True
    with Cons.prems obtain g1 s1 where
      t: "gameLoopTick env inp g s = Inr (g1, s1)" and
      r: "playRound env inps g1 s1 = Some (Inr (g', s', rest))"
      by (auto split: sum.splits)
    from gameLoopTick_effect [OF t] Cons.IH [OF r] show ?thesis by auto
  qed
qed


text \<open>The first round of the example game, and a later round of it.\<close>

lemma exampleRound_start: "startNextRound specObjects True exampleStart = Inr exampleRound"
  by (simp add: startNextRound_def exampleStart_def exampleRound_def newState_def
      exampleSettings_def specObjects_def incrementCurrentRound_def
      calculateCentipedeSlowdown_def calculateCentipedeSize_def intDiv_def wrapInt_def
      getRandomCentipedeMovingDirection_def Let_def signed_divide_int_def
      numeral_3_eq_3)

lemma exampleLaterRound_start:
  "startNextRound specObjects True (exampleStart\<lparr>currentRound := 1, lives := 2\<rparr>) =
     Inr (exampleRound\<lparr>currentRound := 2, lives := 2\<rparr>)"
  by (simp add: startNextRound_def exampleStart_def exampleRound_def newState_def
      exampleSettings_def specObjects_def incrementCurrentRound_def
      calculateCentipedeSlowdown_def calculateCentipedeSize_def intDiv_def wrapInt_def
      getRandomCentipedeMovingDirection_def Let_def signed_divide_int_def
      numeral_3_eq_3)

lemma exampleRound_played:
  "0 < n \<Longrightarrow>
   playRound specObjects [idleInput, fireInput] g (exampleRound\<lparr>currentRound := r, lives := n\<rparr>) =
     Some (Inr (called exampleRoundCalls g, exampleRoundOver\<lparr>currentRound := r, lives := n\<rparr>, []))"
  by (simp add: gameLoopTick_def handlePlayerControlledEntities_def handleCentipedes_def
      handleGlobalCollisions_def collisionsDue_def executePathForGametick_def intRem_def
      signed_modulo_int_def incrementGameTick_def alive_def continueRound_def
      spawnBulletIfNecessary_def moveBullets_def collideBulletsMushrooms_def
      moveStarshipIfNecessary_def collideBulletsCentipedes_def collidePlayerCentipedes_def
      centipedeScan.simps centipedeTurn_def bulletScan.simps playerScan.simps
      collide_def firstSegmentAt_def increaseScore_def addToScore_def eraseAt_def
      breakGameIfNecessary_def printGame_def called_def tickCalls_def playerPathCalls_def
      idleInput_def fireInput_def exampleRound_def exampleRoundOver_def exampleRoundCalls_def
      exampleStart_def newState_def exampleSettings_def specObjects_def Let_def)

lemma exampleRound_fields:
  "exampleRound\<lparr>currentRound := 1, lives := 3\<rparr> = exampleRound"
  "exampleRoundOver\<lparr>currentRound := 1, lives := 3\<rparr> = exampleRoundOver"
  by (simp_all add: exampleRound_def exampleRoundOver_def exampleStart_def newState_def
      exampleSettings_def)

subsection \<open>Centipedes against the starship\<close>

lemma playerScan_miss:
  "k < n \<Longrightarrow> k < length (centipedes s) \<Longrightarrow> \<not> isAt (centipedes s ! k) p \<Longrightarrow>
   playerScan isAt p k n g s = playerScan isAt p (k + 1) n g s"
  by (simp add: playerScan.simps [of isAt p k n g s])

lemma playerScan_hit:
  "k < n \<Longrightarrow> k < length (centipedes s) \<Longrightarrow> isAt (centipedes s ! k) p \<Longrightarrow>
   playerScan isAt p k n g s =
     playerScan isAt p (k + 1) n (g\<lparr>hasDiedInRound := True\<rparr>)
       ((SaveState_loseLive s)\<lparr>centipedes := []\<rparr>)"
  by (simp add: playerScan.simps [of isAt p k n g s] loseLive_def)

lemma playerScan_cleared:
  "k < n \<Longrightarrow> centipedes s = [] \<Longrightarrow> playerScan isAt p k n g s = Inl InvalidatedIterator"
  by (simp add: playerScan.simps [of isAt p k n g s])

lemma playerScan_skip:
  "j \<le> k \<Longrightarrow> k < n \<Longrightarrow> n \<le> length (centipedes s) \<Longrightarrow>
   list_all (\<lambda>c. \<not> isAt c p) (take k (centipedes s)) \<Longrightarrow>
   playerScan isAt p j n g s = playerScan isAt p k n g s"
proof (induction "k - j" arbitrary: j)
  case 0
  then have "j = k" by simp
  then show ?case by simp
next
  case (Suc d)
  from Suc.hyps(2) have jk: "j < k" by simp
  with Suc.prems(2,3) have "take k (centipedes s) ! j = centipedes s ! j"
    and "j < length (take k (centipedes s))"
    by simp_all
  with Suc.prems(4) have "\<not> isAt (centipedes s ! j) p"
    by (metis list_all_length)
  with jk Suc.prems(2,3) have "playerScan isAt p j n g s = playerScan isAt p (j + 1) n g s"
    by (simp add: playerScan_miss)
  also have "\<dots> = playerScan isAt p k n g s"
  proof (rule Suc.hyps(1))
    show "d = k - (j + 1)" using Suc.hyps(2) by simp
    show "j + 1 \<le> k" using jk by simp
  qed (fact Suc.prems(2) Suc.prems(3) Suc.prems(4))+
  finally show ?case .
qed

text \<open>
  C3. Let the centipede at offset \<open>k\<close> be the first that is at the position of the
  starship, and let a centipede follow it in the vector. The turn on it takes a life and
  clears the vector, and the next turn reads an element of a vector that holds none: the
  loop ends in a fault, and the code does not come to a second loss of a life. (With one
  centipede in the vector, on the cell of the starship, the check takes one life, sets the
  flag and clears the vector.)
\<close>

theorem second_centipede_on_starship_is_read_after_clear:
  assumes "k + 1 < length (centipedes s)"
    and "isAtPosition env (centipedes s ! k) (starshipPosition (starship s))"
    and "list_all (\<lambda>c. \<not> isAtPosition env c (starshipPosition (starship s))) (take k (centipedes s))"
  shows "collidePlayerCentipedes env g s = Inl InvalidatedIterator"
proof -
  let ?p = "starshipPosition (starship s)" and ?n = "length (centipedes s)"
  have "playerScan (isAtPosition env) ?p 0 ?n g s = playerScan (isAtPosition env) ?p k ?n g s"
    using assms(1,3) by (simp add: playerScan_skip)
  also have "\<dots> = playerScan (isAtPosition env) ?p (k + 1) ?n (g\<lparr>hasDiedInRound := True\<rparr>)
                      ((SaveState_loseLive s)\<lparr>centipedes := []\<rparr>)"
    using assms(1,2) by (simp add: playerScan_hit)
  also have "\<dots> = Inl InvalidatedIterator"
    using assms(1) by (simp add: playerScan_cleared)
  finally show ?thesis by (simp add: collidePlayerCentipedes_def Let_def)
qed

theorem second_centipede_on_starship_is_read_after_clear_witness:
  "collidePlayerCentipedes specObjects (GameLogic_new False)
       (exampleTwoHeads\<lparr>centipedes := [hd (centipedes exampleTwoHeads)]\<rparr>) =
     Inr ((GameLogic_new False)\<lparr>hasDiedInRound := True\<rparr>,
          exampleTwoHeads\<lparr>centipedes := [], lives := 2\<rparr>) \<and>
   collidePlayerCentipedes specObjects (GameLogic_new False) exampleTwoHeads =
     Inl InvalidatedIterator"
proof -
  have "collidePlayerCentipedes specObjects (GameLogic_new False) exampleTwoHeads =
          Inl InvalidatedIterator"
    by (rule second_centipede_on_starship_is_read_after_clear [of 0])
       (simp_all add: exampleTwoHeads_def exampleStart_def newState_def exampleSettings_def
          specObjects_def headAtPosition_def)
  moreover have "collidePlayerCentipedes specObjects (GameLogic_new False)
       (exampleTwoHeads\<lparr>centipedes := [hd (centipedes exampleTwoHeads)]\<rparr>) =
     Inr ((GameLogic_new False)\<lparr>hasDiedInRound := True\<rparr>,
          exampleTwoHeads\<lparr>centipedes := [], lives := 2\<rparr>)"
    by (simp add: collidePlayerCentipedes_def playerScan.simps loseLive_def SaveState_loseLive_def
        exampleTwoHeads_def exampleStart_def newState_def exampleSettings_def specObjects_def
        headAtPosition_def GameLogic_new_def Let_def)
  ultimately show ?thesis by simp
qed

subsection \<open>The flag of the round\<close>

text \<open>
  C4. \<^verbatim>\<open>startNextRound\<close> works on the save state alone; the flag is a member of the game
  logic, and no method assigns \<^verbatim>\<open>false\<close> to it. Once the flag is set, it is still set at
  the end of every round played afterwards, whether a life is lost in that round or not:
  the end of the round sleeps and adds nothing to the score, and the outer loop of
  \<^verbatim>\<open>gameLoop\<close> goes on from there.
\<close>

theorem flag_survives_round_start:
  assumes "alive s"
    and "startNextRound env goLeft s = Inr s1"
    and "playRound env inps g s1 = Some (Inr (g2, s2, rest))"
    and "hasDiedInRound g"
  shows "hasDiedInRound g2 \<and>
         endRound g2 s2 = (called [SleepFor (liveLostBreakTime (settings s2))] g2, s2) \<and>
         playRounds env (goLeft # rolls) inps g s =
           playRounds env rolls rest (called [SleepFor (liveLostBreakTime (settings s2))] g2) s2"
  using playRound_effect [OF assms(3)] assms(1,2,3,4)
  by (auto simp: endRound_def Let_def)

theorem flag_survives_round_start_witness:
  "lives (exampleRoundOver\<lparr>currentRound := 2, lives := 2\<rparr>) =
     lives (exampleStart\<lparr>currentRound := 1, lives := 2\<rparr>) \<and>
   endRound (called exampleRoundCalls ((GameLogic_new False)\<lparr>hasDiedInRound := True\<rparr>))
       (exampleRoundOver\<lparr>currentRound := 2, lives := 2\<rparr>) =
     (called [SleepFor 1000]
        (called exampleRoundCalls ((GameLogic_new False)\<lparr>hasDiedInRound := True\<rparr>)),
      exampleRoundOver\<lparr>currentRound := 2, lives := 2\<rparr>)"
  using flag_survives_round_start
      [OF _ exampleLaterRound_start
        exampleRound_played [of 2 "(GameLogic_new False)\<lparr>hasDiedInRound := True\<rparr>" 2]]
  by (simp add: alive_def GameLogic_new_def exampleRoundOver_def exampleRound_def
      exampleStart_def newState_def exampleSettings_def)

text \<open>
  C10. Let \<open>garbage\<close> be what the member held when the constructor returned. In a game
  begun with \<^verbatim>\<open>startNew\<close>, the flag read at the end of the first round is \<open>garbage\<close>
  unless a life was lost in the round, which sets it. So with no life lost, the end of the
  first round adds the points of a round end when \<open>garbage\<close> is false and sleeps when it
  is true; the outer loop of \<^verbatim>\<open>gameLoop\<close> goes on from there.
\<close>

theorem uninitialised_flag_decides_first_round_end:
  assumes "0 < initialPlayerHealth st"
    and "startNextRound env goLeft (newState env st) = Inr s1"
    and "playRound env inps (snd (startGameClock (gameTickLength st) (GameLogic_new garbage))) s1 =
           Some (Inr (g2, s2, rest))"
  shows "hasDiedInRound (GameLogic_new garbage) = garbage \<and>
         hasDiedInRound g2 = (garbage \<or> lives s2 < lives s1) \<and>
         endRound g2 s2 =
           (if garbage \<or> lives s2 < lives s1
            then (called [SleepFor (liveLostBreakTime (settings s2))] g2, s2)
            else (g2, increaseScore roundEnd s2)) \<and>
         playRounds env (goLeft # rolls) inps
             (snd (startGameClock (gameTickLength st) (GameLogic_new garbage))) (newState env st) =
           playRounds env rolls rest (fst (endRound g2 s2)) (snd (endRound g2 s2))"
proof -
  have "alive (newState env st)"
    using assms(1) by (simp add: alive_def newState_def)
  then have "playRounds env (goLeft # rolls) inps
             (snd (startGameClock (gameTickLength st) (GameLogic_new garbage))) (newState env st) =
           playRounds env rolls rest (fst (endRound g2 s2)) (snd (endRound g2 s2))"
    using assms(2,3) by (simp split: prod.split)
  then show ?thesis
    using playRound_effect [OF assms(3)]
    by (auto simp: GameLogic_new_def startGameClock_def endRound_def Let_def)
qed

theorem uninitialised_flag_decides_first_round_end_witness:
  "lives exampleRoundOver = lives exampleRound \<and>
   endRound (called exampleRoundCalls (snd (startGameClock 50 (GameLogic_new True))))
       exampleRoundOver =
     (called [SleepFor 1000]
        (called exampleRoundCalls (snd (startGameClock 50 (GameLogic_new True)))),
      exampleRoundOver) \<and>
   endRound (called exampleRoundCalls (snd (startGameClock 50 (GameLogic_new False))))
       exampleRoundOver =
     (called exampleRoundCalls (snd (startGameClock 50 (GameLogic_new False))),
      exampleRoundOver\<lparr>score := 110\<rparr>)"
proof -
  have st: "gameTickLength (exampleSettings\<lparr>initialStarshipLine := 0\<rparr>) = 50"
    by (simp add: exampleSettings_def)
  have played: "playRound specObjects [idleInput, fireInput]
      (snd (startGameClock (gameTickLength (exampleSettings\<lparr>initialStarshipLine := 0\<rparr>))
              (GameLogic_new garbage))) exampleRound =
      Some (Inr (called exampleRoundCalls
                   (snd (startGameClock (gameTickLength (exampleSettings\<lparr>initialStarshipLine := 0\<rparr>))
                           (GameLogic_new garbage))),
                 exampleRoundOver, []))" for garbage
    using exampleRound_played [of 3 _ 1] by (simp add: exampleRound_fields)
  from uninitialised_flag_decides_first_round_end
         [OF _ exampleRound_start [unfolded exampleStart_def] played [of True]]
       uninitialised_flag_decides_first_round_end
         [OF _ exampleRound_start [unfolded exampleStart_def] played [of False]]
  show ?thesis
    by (simp add: st exampleRoundOver_def exampleRound_def exampleStart_def newState_def
        exampleSettings_def increaseScore_def addToScore_def)
qed

subsection \<open>The order of the calls in a tick\<close>

lemma exampleTick:
  "gameLoopTick specObjects idleInput (GameLogic_new False) (exampleStart\<lparr>gameTick := 1\<rparr>) =
     Inr (called (tickCalls True False False) (GameLogic_new False),
          exampleStart\<lparr>gameTick := 2\<rparr>)"
  by (simp add: gameLoopTick_def handlePlayerControlledEntities_def handleCentipedes_def
      handleGlobalCollisions_def collisionsDue_def executePathForGametick_def intRem_def
      signed_modulo_int_def incrementGameTick_def
      spawnBulletIfNecessary_def moveBullets_def collideBulletsMushrooms_def
      moveStarshipIfNecessary_def collideBulletsCentipedes_def collidePlayerCentipedes_def
      centipedeScan.simps centipedeTurn_def playerScan.simps
      breakGameIfNecessary_def printGame_def called_def tickCalls_def playerPathCalls_def
      idleInput_def exampleStart_def newState_def exampleSettings_def specObjects_def Let_def)

lemma tickCalls_order:
  "allBefore isMovement isGlobalCollision (tickCalls p c m) \<and>
   allBefore isCollision isRendering (tickCalls p c m) \<and>
   allBefore isMovement isRendering (tickCalls p c m)"
  by (cases p; cases c; cases m) (simp_all add: tickCalls_def playerPathCalls_def)

text \<open>
  C5, as the claim states it, fails: in a tick in which the player path is due, the
  collisions of the bullets with the mushrooms are evaluated after the bullets move and
  before the starship moves.
\<close>

theorem collision_with_mushrooms_before_starship_moves:
  "gameLoopTick specObjects idleInput (GameLogic_new False) (exampleStart\<lparr>gameTick := 1\<rparr>) =
     Inr (called (tickCalls True False False) (GameLogic_new False),
          exampleStart\<lparr>gameTick := 2\<rparr>) \<and>
   tickCalls True False False =
     [SpawnBulletIfNecessary, MoveBullets, CollideBulletsMushrooms, MoveStarshipIfNecessary,
      CollideBulletsCentipedes, CollidePlayerCentipedes, DisplayImage] \<and>
   \<not> allBefore isMovement isCollision (tickCalls True False False)"
  using exampleTick by (simp add: tickCalls_def playerPathCalls_def)

text \<open>
  C5, amended. In every tick that ends without a fault, the calls are those of
  \<open>tickCalls\<close> for the paths that are due. In them, every movement (of the bullets, the
  starship and the centipedes) comes before the collisions of the bullets with the
  centipedes and of the centipedes with the starship, and every movement and every
  collision, those with the mushrooms too, comes before the frame is displayed.
\<close>

theorem movement_then_global_collisions_then_rendering:
  assumes "gameLoopTick env inp g s = Inr (g', s')"
  shows "(let new = tickCalls
                      ((gameTick s + 1) mod starshipModuloGametickSlowdown (settings s) = 0)
                      ((gameTick s + 1) mod currentCentipedeModuloGametickSlowdown s = 0)
                      (breakoutMenu inp)
          in calls g' = calls g @ new \<and>
             allBefore isMovement isGlobalCollision new \<and>
             allBefore isCollision isRendering new \<and>
             allBefore isMovement isRendering new)"
  using gameLoopTick_effect [OF assms] tickCalls_order by (simp add: Let_def)

theorem movement_then_global_collisions_then_rendering_witness:
  "calls (called (tickCalls True False False) (GameLogic_new False)) =
     calls (GameLogic_new False) @ tickCalls True False False \<and>
   allBefore isMovement isGlobalCollision (tickCalls True False False) \<and>
   allBefore isCollision isRendering (tickCalls True False False) \<and>
   allBefore isMovement isRendering (tickCalls True False False)"
  using movement_then_global_collisions_then_rendering [OF exampleTick]
  by (simp add: Let_def idleInput_def exampleStart_def newState_def exampleSettings_def)

end
